theory Spec2Isabelle
  imports Complex_Main "HOL-Library.Sublist" "HOL-Library.AList"
begin

section \<open>Python values\<close>

text \<open>
  The repository is dynamically typed Python.  The values that flow through the
  functions verified here are \<open>None\<close>, integers, floats, strings and lists.
  A Python \<open>str\<close> is modelled as a \<open>string\<close>.  Python floats are modelled by
  exact reals: a threshold is the decimal number written in the source, and a
  division or a comparison is that of the exact values.  The floating-point
  code can differ from this only for measurements whose ratio lies within a
  rounding error of a threshold.  The order in which the tests are tried does
  not depend on it, a measurement that is zero or negative fails every lower
  bound either way, and the inputs evaluated below are far from every
  threshold (a ratio of 1.06 against 1.05).
\<close>

datatype pyval =
    PNone
  | PInt int
  | PFloat real
  | PStr string
  | PList "pyval list"

section \<open>\<open>utils.py\<close>: gender normalisation\<close>

text \<open>
  \<open>str.lower()\<close> on the letters \<open>A\<close> to \<open>Z\<close>; every other character is left
  alone.  No character outside \<open>A\<close>..\<open>Z\<close> is mapped by Python's \<open>lower\<close> to one
  of the letters that occur in the four recognised tokens.
\<close>

definition lower_char :: "char \<Rightarrow> char" where
  "lower_char c =
     (case map_of (zip ''ABCDEFGHIJKLMNOPQRSTUVWXYZ'' ''abcdefghijklmnopqrstuvwxyz'') c of
        Some d \<Rightarrow> d
      | None \<Rightarrow> c)"

definition lower :: "string \<Rightarrow> string" where
  "lower s = map lower_char s"

text \<open>
  \<^verbatim>\<open>
  def normalize_gender(gender_string):
      if isinstance(gender_string, str):
          g_lower = gender_string.lower()
          if g_lower in ['male','men']: return 'Men'
          if g_lower in ['female','women']: return 'Women'
      return gender_string
  \<close>
\<close>

fun normalize_gender :: "pyval \<Rightarrow> pyval" where
  "normalize_gender (PStr gender_string) =
     (let g_lower = lower gender_string in
      if g_lower \<in> set [''male'', ''men''] then PStr ''Men''
      else if g_lower \<in> set [''female'', ''women''] then PStr ''Women''
      else PStr gender_string)"
| "normalize_gender gender_string = gender_string"

text \<open>
  The specification's notion of ``any casing of a token'': the same letters,
  each one either as written in the (lower-case) token or as its capital.
  This definition follows the specification's words, not the code.
\<close>

definition upper_char :: "char \<Rightarrow> char" where
  "upper_char c =
     (case map_of (zip ''abcdefghijklmnopqrstuvwxyz'' ''ABCDEFGHIJKLMNOPQRSTUVWXYZ'') c of
        Some d \<Rightarrow> d
      | None \<Rightarrow> c)"

definition casing_of :: "string \<Rightarrow> string \<Rightarrow> bool" where
  "casing_of s token = list_all2 (\<lambda>c d. c = d \<or> c = upper_char d) s token"

section \<open>\<open>utils.py\<close>: body-shape classifiers\<close>

text \<open>
  \<^verbatim>\<open>
  def determine_women_shape_by_ratio(shoulders, bust, waist, hips):
      if any(m <= 0 for m in [shoulders, bust, waist, hips]): return "unknown"
      if (waist / shoulders) >= 1.05 and (waist / bust) >= 1.05: return "Apple"
      elif (shoulders / hips) >= 1.05 or (bust / hips) >= 1.05: return "Inverted Triangle"
      elif (hips / shoulders) >= 1.05 or (hips / bust) >= 1.05: return "Pear"
      elif (waist / shoulders) >= 0.75 and (waist / bust) >= 0.75: return "Rectangle"
      elif ((waist / shoulders) <= 0.75 or (waist / bust) <= 0.75) and (waist / hips) <= 0.75: return "Hourglass"
      else: return "unknown"
  \<close>
  The guard comes first, so no division by zero is ever evaluated.
\<close>

definition determine_women_shape_by_ratio :: "real \<Rightarrow> real \<Rightarrow> real \<Rightarrow> real \<Rightarrow> string" where
  "determine_women_shape_by_ratio shoulders bust waist hips =
     (if list_ex (\<lambda>m. m \<le> 0) [shoulders, bust, waist, hips] then ''unknown''
      else if waist / shoulders \<ge> 1.05 \<and> waist / bust \<ge> 1.05 then ''Apple''
      else if shoulders / hips \<ge> 1.05 \<or> bust / hips \<ge> 1.05 then ''Inverted Triangle''
      else if hips / shoulders \<ge> 1.05 \<or> hips / bust \<ge> 1.05 then ''Pear''
      else if waist / shoulders \<ge> 0.75 \<and> waist / bust \<ge> 0.75 then ''Rectangle''
      else if (waist / shoulders \<le> 0.75 \<or> waist / bust \<le> 0.75) \<and> waist / hips \<le> 0.75
        then ''Hourglass''
      else ''unknown'')"

text \<open>
  \<^verbatim>\<open>
  def determine_men_shape_by_logic(chest, waist, hips):
      if (76.2 <= chest <= 86.36) and (76.2 <= waist <= 86.36) and (76.2 <= hips <= 86.36): return "Rectangle"
      elif (81.28 <= chest <= 91.44) and (81.28 <= waist <= 91.44) and (81.28 <= hips <= 91.44): return "Oval"
      elif (71.12 <= chest <= 81.28) and (76.2 <= waist <= 86.36) and (86.36 <= hips <= 96.52): return "Triangle"
      elif (91.44 <= chest <= 101.6) and (71.12 <= waist <= 81.28) and (71.12 <= hips <= 81.28): return "Inverted Triangle"
      elif (91.44 <= chest <= 101.6) and (76.2 <= waist <= 86.36) and (86.36 <= hips <= 96.52): return "Trapezoid"
      else: return "unknown"
  \<close>
\<close>

definition between :: "real \<Rightarrow> real \<Rightarrow> real \<Rightarrow> bool" where
  "between lo x hi \<longleftrightarrow> lo \<le> x \<and> x \<le> hi"

definition determine_men_shape_by_logic :: "real \<Rightarrow> real \<Rightarrow> real \<Rightarrow> string" where
  "determine_men_shape_by_logic chest waist hips =
     (if between 76.2 chest 86.36 \<and> between 76.2 waist 86.36 \<and> between 76.2 hips 86.36
        then ''Rectangle''
      else if between 81.28 chest 91.44 \<and> between 81.28 waist 91.44 \<and> between 81.28 hips 91.44
        then ''Oval''
      else if between 71.12 chest 81.28 \<and> between 76.2 waist 86.36 \<and> between 86.36 hips 96.52
        then ''Triangle''
      else if between 91.44 chest 101.6 \<and> between 71.12 waist 81.28 \<and> between 71.12 hips 81.28
        then ''Inverted Triangle''
      else if between 91.44 chest 101.6 \<and> between 76.2 waist 86.36 \<and> between 86.36 hips 96.52
        then ''Trapezoid''
      else ''unknown'')"

section \<open>Exceptions, dictionaries and the Python built-ins that are used\<close>

text \<open>
  An exception is its class, as far as the handlers of the source tell classes
  apart, together with its message \<open>str(e)\<close>.  A function of the source that
  can raise returns \<open>pyexc + 'a\<close>, with \<open>Inl\<close> for the exception.
\<close>

datatype exc_class = KeyError | TypeError | ValueError | SyntaxError | IndexError | OtherException

datatype pyexc = PyExc exc_class string

type_synonym pydict = "string \<rightharpoonup> pyval"

text \<open>\<open>d.get(key, default)\<close> and \<open>d.get(key)\<close>.\<close>

definition get_or :: "pydict \<Rightarrow> string \<Rightarrow> pyval \<Rightarrow> pyval" where
  "get_or d key dflt = (case d key of Some v \<Rightarrow> v | None \<Rightarrow> dflt)"

definition get :: "pydict \<Rightarrow> string \<Rightarrow> pyval" where
  "get d key = get_or d key PNone"

text \<open>
  The library functions whose results this development does not compute are
  parameters of the model, collected in one record:
  \<^item> \<open>build_url\<close>: \<open>cloudinary.CloudinaryImage(product_id).build_url(width=400)\<close>;
  \<^item> \<open>float_format\<close>: \<open>format(x, ',')\<close> for a float \<open>x\<close>;
  \<^item> \<open>float_str\<close>: \<open>str(x)\<close> for a float \<open>x\<close>;
  \<^item> \<open>list_str\<close>: \<open>str(xs)\<close> for a list \<open>xs\<close>;
  \<^item> \<open>literal_eval\<close>: \<open>ast.literal_eval\<close>;
  \<^item> \<open>concatenate\<close>: \<open>np.concatenate(values).tolist()\<close> on the cells of a column.
\<close>

record pylib =
  build_url :: "pyval \<Rightarrow> pyval"
  float_format :: "real \<Rightarrow> string"
  float_str :: "real \<Rightarrow> string"
  list_str :: "pyval list \<Rightarrow> string"
  literal_eval :: "pyval \<Rightarrow> pyexc + pyval"
  concatenate :: "pyval list \<Rightarrow> pyexc + pyval list"

text \<open>Truthiness, as tested by \<open>if x:\<close>.\<close>

fun truthy :: "pyval \<Rightarrow> bool" where
  "truthy PNone = False"
| "truthy (PInt i) = (i \<noteq> 0)"
| "truthy (PFloat r) = (r \<noteq> 0)"
| "truthy (PStr s) = (s \<noteq> [])"
| "truthy (PList xs) = (xs \<noteq> [])"

text \<open>Decimal digits of a natural number, and \<open>str(i)\<close> for an integer.\<close>

definition digit_char :: "nat \<Rightarrow> char" where
  "digit_char d = ''0123456789'' ! d"

fun digits_of :: "nat \<Rightarrow> string" where
  "digits_of n = (if n < 10 then [digit_char n] else digits_of (n div 10) @ [digit_char (n mod 10)])"

declare digits_of.simps [simp del]

definition int_str :: "int \<Rightarrow> string" where
  "int_str i = (if i < 0 then CHR ''-'' # digits_of (nat (- i)) else digits_of (nat i))"

text \<open>The apostrophe, which the messages of many exceptions contain.\<close>

definition squote :: char where
  "squote = CHR 0x27"

definition quoted :: "string \<Rightarrow> string" where
  "quoted s = squote # s @ [squote]"

text \<open>
  The format specification \<open>','\<close>: a comma between every group of three digits,
  counted from the right.
\<close>

fun group_thousands :: "string \<Rightarrow> string" where
  "group_thousands ds =
     (if length ds \<le> 3 then ds
      else group_thousands (take (length ds - 3) ds) @ CHR '','' # drop (length ds - 3) ds)"

declare group_thousands.simps [simp del]

fun format_comma :: "pylib \<Rightarrow> pyval \<Rightarrow> pyexc + string" where
  "format_comma lib (PInt i) =
     Inr (if i < 0 then CHR ''-'' # group_thousands (digits_of (nat (- i)))
          else group_thousands (digits_of (nat i)))"
| "format_comma lib (PFloat r) = Inr (float_format lib r)"
| "format_comma lib (PStr s) = Inl (PyExc ValueError (''Cannot specify '' @ quoted '','' @ '' with '' @ quoted ''s'' @ ''.''))"
| "format_comma lib PNone =
     Inl (PyExc TypeError ''unsupported format string passed to NoneType.__format__'')"
| "format_comma lib (PList xs) =
     Inl (PyExc TypeError ''unsupported format string passed to list.__format__'')"

text \<open>\<open>str(x)\<close>, which is also what an f-string field \<open>{x}\<close> inserts.\<close>

fun py_str :: "pylib \<Rightarrow> pyval \<Rightarrow> string" where
  "py_str lib PNone = ''None''"
| "py_str lib (PInt i) = int_str i"
| "py_str lib (PFloat r) = float_str lib r"
| "py_str lib (PStr s) = s"
| "py_str lib (PList xs) = list_str lib xs"

text \<open>Running a fallible function over a list: the first exception ends the loop.\<close>

fun map_exc :: "('a \<Rightarrow> pyexc + 'b) \<Rightarrow> 'a list \<Rightarrow> pyexc + 'b list" where
  "map_exc f [] = Inr []"
| "map_exc f (x # xs) =
     (case f x of
        Inl e \<Rightarrow> Inl e
      | Inr y \<Rightarrow> (case map_exc f xs of Inl e \<Rightarrow> Inl e | Inr ys \<Rightarrow> Inr (y # ys)))"

text \<open>An optional string argument: absent means \<open>None\<close>.\<close>

fun opt_str :: "string option \<Rightarrow> pyval" where
  "opt_str None = PNone"
| "opt_str (Some s) = PStr s"

section \<open>\<open>utils.py\<close>: display records and ranking\<close>

text \<open>
  \<^verbatim>\<open>
  def format_product_dictionary(p):
      product_dict = p.copy()
      product_dict['id'] = product_dict.get("Product_ID")
      product_dict['name'] = product_dict.get("Product_Name", "N/A")
      product_dict['price'] = f"IDR {product_dict.get('Price', 0):,}"
      product_dict['raw_price'] = product_dict.get('Price', 0)
      product_dict['image_url'] = cloudinary.CloudinaryImage(product_dict.get("Product_ID")).build_url(width=400)
      product_dict['reviews'] = product_dict.get('Number_of_Reviews', 0)
      product_dict['category'] = product_dict.get('Category', 'N/A')
      product_dict['material'] = product_dict.get('Material', 'N/A')
      product_dict['size'] = product_dict.get('Size', '')
      product_dict['description'] = product_dict.get('Description', 'No description available.')
      product_dict['gender'] = product_dict.get('Gender_Orientation', "N/A")
      return product_dict
  \<close>
  The assignments are made one after the other on the copy, each reading the
  dictionary as the earlier ones left it.
\<close>

definition format_product_dictionary :: "pylib \<Rightarrow> pydict \<Rightarrow> pyexc + pydict" where
  "format_product_dictionary lib p =
     (let d0 = p;
          d1 = d0(''id'' \<mapsto> get d0 ''Product_ID'');
          d2 = d1(''name'' \<mapsto> get_or d1 ''Product_Name'' (PStr ''N/A''))
      in case format_comma lib (get_or d2 ''Price'' (PInt 0)) of
           Inl e \<Rightarrow> Inl e
         | Inr shown \<Rightarrow>
            (let d3 = d2(''price'' \<mapsto> PStr (''IDR '' @ shown));
                 d4 = d3(''raw_price'' \<mapsto> get_or d3 ''Price'' (PInt 0));
                 d5 = d4(''image_url'' \<mapsto> build_url lib (get d4 ''Product_ID''));
                 d6 = d5(''reviews'' \<mapsto> get_or d5 ''Number_of_Reviews'' (PInt 0));
                 d7 = d6(''category'' \<mapsto> get_or d6 ''Category'' (PStr ''N/A''));
                 d8 = d7(''material'' \<mapsto> get_or d7 ''Material'' (PStr ''N/A''));
                 d9 = d8(''size'' \<mapsto> get_or d8 ''Size'' (PStr []));
                 d10 = d9(''description'' \<mapsto>
                          get_or d9 ''Description'' (PStr ''No description available.''));
                 d11 = d10(''gender'' \<mapsto> get_or d10 ''Gender_Orientation'' (PStr ''N/A''))
             in Inr d11))"

text \<open>
  The gender filter that both ranking functions start with:
  \<^verbatim>\<open>
      target_products = products_list
      if gender:
          normalized_user_gender = normalize_gender(gender)
          target_products = [p for p in products_list
                             if normalize_gender(p.get('Gender_Orientation')) == normalized_user_gender]
  \<close>
  The hint is declared \<open>gender: str = None\<close>; a string is equal to a value only
  if that value is the same string.
\<close>

definition filter_by_gender :: "pydict list \<Rightarrow> string option \<Rightarrow> pydict list" where
  "filter_by_gender products_list gender =
     (if truthy (opt_str gender)
      then (let normalized_user_gender = normalize_gender (opt_str gender)
            in filter (\<lambda>p. normalize_gender (get p ''Gender_Orientation'') = normalized_user_gender)
                 products_list)
      else products_list)"

text \<open>
  \<open>x * 0.6\<close> for a float constant: defined on numbers, a \<open>TypeError\<close> on
  everything else.
\<close>

fun times_float :: "pyval \<Rightarrow> real \<Rightarrow> pyexc + real" where
  "times_float (PInt i) c = Inr (real_of_int i * c)"
| "times_float (PFloat r) c = Inr (r * c)"
| "times_float (PStr s) c =
     Inl (PyExc TypeError (''can'' @ [squote] @ ''t multiply sequence by non-int of type ''
                             @ quoted ''float''))"
| "times_float (PList xs) c =
     Inl (PyExc TypeError (''can'' @ [squote] @ ''t multiply sequence by non-int of type ''
                             @ quoted ''float''))"
| "times_float PNone c =
     Inl (PyExc TypeError (''unsupported operand type(s) for *: '' @ quoted ''NoneType''
                             @ '' and '' @ quoted ''float''))"

text \<open>
  \<^verbatim>\<open>
      def calculate_trending_score(p):
          return (p.get('Rating', 0) * 0.6) + (p.get('Number_of_Reviews', 0) * 0.2) + (p.get('Trending_Score', 0) * 0.2)
  \<close>
\<close>

definition calculate_trending_score :: "pydict \<Rightarrow> pyexc + real" where
  "calculate_trending_score p =
     (case times_float (get_or p ''Rating'' (PInt 0)) 0.6 of
        Inl e \<Rightarrow> Inl e
      | Inr a \<Rightarrow>
         (case times_float (get_or p ''Number_of_Reviews'' (PInt 0)) 0.2 of
            Inl e \<Rightarrow> Inl e
          | Inr b \<Rightarrow>
             (case times_float (get_or p ''Trending_Score'' (PInt 0)) 0.2 of
                Inl e \<Rightarrow> Inl e
              | Inr c \<Rightarrow> Inr (a + b + c))))"

text \<open>
  \<open>sorted(xs, key=..., reverse=True)\<close> with the keys already computed: a stable
  sort by descending key (records with equal keys keep their order).
\<close>

definition sorted_reverse :: "('k::linordered_idom \<times> 'a) list \<Rightarrow> 'a list" where
  "sorted_reverse keyed = map snd (sort_key (\<lambda>kp. - fst kp) keyed)"

text \<open>
  \<^verbatim>\<open>
  def show_trending_products(products_list: list, gender: str = None):
      ...
      sorted_products = sorted(target_products, key=calculate_trending_score, reverse=True)[:5]
      return [format_product_dictionary(p) for p in sorted_products]
  \<close>
  \<open>sorted\<close> computes the key of every element before it compares any.
\<close>

definition show_trending_products :: "pylib \<Rightarrow> pydict list \<Rightarrow> string option \<Rightarrow> pyexc + pydict list" where
  "show_trending_products lib products_list gender =
     (let target_products = filter_by_gender products_list gender
      in case map_exc calculate_trending_score target_products of
           Inl e \<Rightarrow> Inl e
         | Inr scores \<Rightarrow>
            (let sorted_products = take 5 (sorted_reverse (zip scores target_products))
             in map_exc (format_product_dictionary lib) sorted_products))"

text \<open>
  \<^verbatim>\<open>
      def get_discount_percentage(p):
          discount_str = p.get('Discount', '0%')
          numeric_part = re.search(r'\d+', str(discount_str))
          return int(numeric_part.group(0)) if numeric_part else 0
  \<close>
  \<open>re.search(r'\d+', s)\<close> finds the first maximal run of digits of \<open>s\<close>.
\<close>

definition is_digit :: "char \<Rightarrow> bool" where
  "is_digit c \<longleftrightarrow> c \<in> set ''0123456789''"

definition search_digits :: "string \<Rightarrow> string option" where
  "search_digits s =
     (let rest = dropWhile (\<lambda>c. \<not> is_digit c) s
      in if rest = [] then None else Some (takeWhile is_digit rest))"

definition digit_value :: "char \<Rightarrow> int" where
  "digit_value c = int (length (takeWhile (\<lambda>d. d \<noteq> c) ''0123456789''))"

definition int_of_digits :: "string \<Rightarrow> int" where
  "int_of_digits ds = foldl (\<lambda>acc c. 10 * acc + digit_value c) 0 ds"

definition get_discount_percentage :: "pylib \<Rightarrow> pydict \<Rightarrow> int" where
  "get_discount_percentage lib p =
     (let discount_str = get_or p ''Discount'' (PStr ''0%'')
      in case search_digits (py_str lib discount_str) of
           Some numeric_part \<Rightarrow> int_of_digits numeric_part
         | None \<Rightarrow> 0)"

definition show_top_5_discounted_products ::
    "pylib \<Rightarrow> pydict list \<Rightarrow> string option \<Rightarrow> pyexc + pydict list" where
  "show_top_5_discounted_products lib products_list gender =
     (let target_products = filter_by_gender products_list gender;
          sorted_products =
            take 5 (sorted_reverse (map (\<lambda>p. (get_discount_percentage lib p, p)) target_products))
      in map_exc (format_product_dictionary lib) sorted_products)"

section \<open>Data frames\<close>

text \<open>
  A \<open>pandas.DataFrame\<close> is modelled column-wise, as the list of its column
  labels with the cells of each column, in column order.  All columns of a
  frame have the same length.  Only the operations the source uses are
  modelled.
\<close>

type_synonym frame = "(string \<times> pyval list) list"

text \<open>\<open>df[c]\<close>: a missing label raises \<open>KeyError(c)\<close>, whose message is \<open>repr(c)\<close>.\<close>

definition getcol :: "frame \<Rightarrow> string \<Rightarrow> pyexc + pyval list" where
  "getcol df c =
     (case map_of df c of
        None \<Rightarrow> Inl (PyExc KeyError (squote # c @ [squote]))
      | Some cells \<Rightarrow> Inr cells)"

text \<open>\<open>df[c] = cells\<close>: replaces the column in place, or appends a new one.\<close>

definition setcol :: "frame \<Rightarrow> string \<Rightarrow> pyval list \<Rightarrow> frame" where
  "setcol df c cells = AList.update c cells df"

text \<open>\<open>df[mask]\<close> for a boolean mask, \<open>df.head(n)\<close> and \<open>df.empty\<close>.\<close>

definition select_rows :: "bool list \<Rightarrow> frame \<Rightarrow> frame" where
  "select_rows keep df = map (\<lambda>(c, cells). (c, map snd (filter fst (zip keep cells)))) df"

definition head :: "nat \<Rightarrow> frame \<Rightarrow> frame" where
  "head n df = map (\<lambda>(c, cells). (c, take n cells)) df"

definition is_empty :: "frame \<Rightarrow> bool" where
  "is_empty df = (case df of [] \<Rightarrow> True | (c, cells) # _ \<Rightarrow> cells = [])"

text \<open>\<open>Series.unique()\<close>: the distinct values in the order of first appearance.\<close>

definition unique :: "pyval list \<Rightarrow> pyval list" where
  "unique cells = foldl (\<lambda>seen v. if v \<in> set seen then seen else seen @ [v]) [] cells"

text \<open>
  \<open>sep.join(items)\<close>: every item must be a \<open>str\<close>; the first one that is not
  raises a \<open>TypeError\<close> naming its position and type.
\<close>

fun type_name :: "pyval \<Rightarrow> string" where
  "type_name PNone = ''NoneType''"
| "type_name (PInt i) = ''int''"
| "type_name (PFloat r) = ''float''"
| "type_name (PStr s) = ''str''"
| "type_name (PList xs) = ''list''"

fun str_items :: "nat \<Rightarrow> pyval list \<Rightarrow> pyexc + string list" where
  "str_items i [] = Inr []"
| "str_items i (PStr s # rest) =
     (case str_items (Suc i) rest of Inl e \<Rightarrow> Inl e | Inr ss \<Rightarrow> Inr (s # ss))"
| "str_items i (v # rest) =
     Inl (PyExc TypeError
           (''sequence item '' @ digits_of i @ '': expected str instance, '' @ type_name v @ '' found''))"

fun join_strings :: "string \<Rightarrow> string list \<Rightarrow> string" where
  "join_strings sep [] = []"
| "join_strings sep [s] = s"
| "join_strings sep (s # t # rest) = s @ sep @ join_strings sep (t # rest)"

definition str_join :: "string \<Rightarrow> pyval list \<Rightarrow> pyexc + string" where
  "str_join sep items =
     (case str_items 0 items of Inl e \<Rightarrow> Inl e | Inr ss \<Rightarrow> Inr (join_strings sep ss))"

text \<open>\<open>sub in s\<close> for two strings.\<close>

fun str_contains :: "string \<Rightarrow> string \<Rightarrow> bool" where
  "str_contains sub [] = (sub = [])"
| "str_contains sub (c # cs) = (prefix sub (c # cs) \<or> str_contains sub cs)"

section \<open>\<open>rag_system.py\<close>: the retrieval objects\<close>

text \<open>
  \<open>BaseRAG\<close> holds the embedding client (\<open>None\<close> when the API clients could not
  be initialised), the nearest-neighbour index (\<open>None\<close> when the artifacts could
  not be loaded) and the detail array parallel to the index.  The client is the
  call \<open>self.client.embeddings.create(input=[text], model=...)\<close> followed by
  reading \<open>response.data[0].embedding\<close>: it yields a vector or raises.  The index
  is the call \<open>self.index.search(query_vector, k)\<close> followed by reading
  \<open>indices[0]\<close>: it yields \<open>k\<close> ordinals, \<open>-1\<close> for ``no match'', or raises.
  \<open>CustomerRAG\<close> adds the product table.
\<close>

record 'v base_rag =
  client :: "(string \<Rightarrow> pyexc + 'v) option"
  index :: "('v \<Rightarrow> int \<Rightarrow> pyexc + int list) option"
  product_details :: "pydict list"

record 'v customer_rag = "'v base_rag" +
  products_df :: frame

text \<open>\<open>xs[i]\<close> on a list: negative positions count from the end.\<close>

definition list_index :: "'a list \<Rightarrow> int \<Rightarrow> pyexc + 'a" where
  "list_index xs i =
     (let pos = (if i < 0 then int (length xs) + i else i)
      in if 0 \<le> pos \<and> pos < int (length xs) then Inr (xs ! nat pos)
         else Inl (PyExc IndexError ''list index out of range''))"

text \<open>
  The body of the result loop, which \<open>FashionRAG.search\<close> and
  \<open>CustomerRAG.get_recommendations_for_customer\<close> both contain word for word:
  \<^verbatim>\<open>
      item = self.product_details[idx]
      product_id = item.get('Product_ID', f"rec_{idx}")
      results.append({
          "id": product_id, "name": item.get('Product_Name', 'N/A'),
          "price": f"IDR {item.get('Price', 0):,}", "raw_price": item.get('Price', 0),
          "brand": item.get('Brand', 'N/A'), "color": item.get('Color', 'N/A'),
          "gender": item.get('Gender_Orientation', 'N/A'),
          "image_url": cloudinary.CloudinaryImage(product_id).build_url(width=400),
          "rating": item.get('Rating', 0), "reviews": item.get('Number_of_Reviews', 0),
          "category": item.get('Category', 'N/A'), "description": item.get('Description', 'No description available.'),
          "material": item.get('Material', 'N/A'), "size": item.get('Size', ''),
      })
  \<close>
\<close>

definition display_record :: "pylib \<Rightarrow> int \<Rightarrow> pydict \<Rightarrow> pyexc + pydict" where
  "display_record lib idx item =
     (let product_id = get_or item ''Product_ID'' (PStr (''rec_'' @ int_str idx))
      in case format_comma lib (get_or item ''Price'' (PInt 0)) of
           Inl e \<Rightarrow> Inl e
         | Inr shown \<Rightarrow>
             Inr [''id'' \<mapsto> product_id,
                  ''name'' \<mapsto> get_or item ''Product_Name'' (PStr ''N/A''),
                  ''price'' \<mapsto> PStr (''IDR '' @ shown),
                  ''raw_price'' \<mapsto> get_or item ''Price'' (PInt 0),
                  ''brand'' \<mapsto> get_or item ''Brand'' (PStr ''N/A''),
                  ''color'' \<mapsto> get_or item ''Color'' (PStr ''N/A''),
                  ''gender'' \<mapsto> get_or item ''Gender_Orientation'' (PStr ''N/A''),
                  ''image_url'' \<mapsto> build_url lib product_id,
                  ''rating'' \<mapsto> get_or item ''Rating'' (PInt 0),
                  ''reviews'' \<mapsto> get_or item ''Number_of_Reviews'' (PInt 0),
                  ''category'' \<mapsto> get_or item ''Category'' (PStr ''N/A''),
                  ''description'' \<mapsto> get_or item ''Description'' (PStr ''No description available.''),
                  ''material'' \<mapsto> get_or item ''Material'' (PStr ''N/A''),
                  ''size'' \<mapsto> get_or item ''Size'' (PStr [])])"

text \<open>
  \<^verbatim>\<open>
      results = []
      for idx in indices[0]:
          if idx == -1: continue
          ...
      return results
  \<close>
  The loop is outside every \<open>try\<close>: an exception in it leaves the method.
\<close>

fun hydrate :: "pylib \<Rightarrow> pydict list \<Rightarrow> int list \<Rightarrow> pyexc + pydict list" where
  "hydrate lib details [] = Inr []"
| "hydrate lib details (idx # rest) =
     (if idx = - 1 then hydrate lib details rest
      else case list_index details idx of
             Inl e \<Rightarrow> Inl e
           | Inr item \<Rightarrow>
              (case display_record lib idx item of
                 Inl e \<Rightarrow> Inl e
               | Inr shown \<Rightarrow>
                  (case hydrate lib details rest of
                     Inl e \<Rightarrow> Inl e
                   | Inr results \<Rightarrow> Inr (shown # results))))"

text \<open>
  The soft gender hint of both retrievers:
  \<^verbatim>\<open>
      normalized_gender = normalize_gender(gender)
      search_query = f"{normalized_gender} {query}" if normalized_gender else query
  \<close>
\<close>

definition with_gender_hint :: "pylib \<Rightarrow> string option \<Rightarrow> string \<Rightarrow> string" where
  "with_gender_hint lib gender query =
     (let normalized_gender = normalize_gender (opt_str gender)
      in if truthy normalized_gender then py_str lib normalized_gender @ '' '' @ query
         else query)"

text \<open>
  \<^verbatim>\<open>
  def search(self, query: str, k: int = 8, gender: str = None) -> List[Dict]:
      if self.index is None or self.client is None: return []
      normalized_gender = normalize_gender(gender)
      search_query = f"{normalized_gender} {query}" if normalized_gender else query
      try:
          response = self.client.embeddings.create(input=[search_query], model=self.embedding_model)
          query_vector = np.array([response.data[0].embedding]).astype('float32')
          distances, indices = self.index.search(query_vector, k)
      except Exception as e:
          st.error(f"Error during product search: {e}")
          return []
      results = [] ...
  \<close>
  The method's outcome is paired with the texts it sent to the embedding
  service, in order.  The message shown by \<open>st.error\<close> is user-interface output
  and is not part of the model.
\<close>

definition search ::
    "pylib \<Rightarrow> ('v, 'x) base_rag_scheme \<Rightarrow> string \<Rightarrow> int \<Rightarrow> string option
      \<Rightarrow> (pyexc + pydict list) \<times> string list" where
  "search lib self query k gender =
     (case (index self, client self) of
        (Some index_search, Some create_embedding) \<Rightarrow>
          (let search_query = with_gender_hint lib gender query
           in case create_embedding search_query of
                Inl e \<Rightarrow> (Inr [], [search_query])
              | Inr query_vector \<Rightarrow>
                 (case index_search query_vector k of
                    Inl e \<Rightarrow> (Inr [], [search_query])
                  | Inr indices \<Rightarrow>
                      (hydrate lib (product_details self) indices, [search_query])))
      | _ \<Rightarrow> (Inr [], []))"

subsection \<open>The customer profile\<close>

text \<open>
  \<^verbatim>\<open>
  def _get_product_details(self, product_ids: list) -> str:
      if not product_ids or not isinstance(product_ids, list): return ""
      names = self.products_df[self.products_df['Product_ID'].isin(product_ids)]['Product_Name'].tolist()
      return ", ".join(names)
  \<close>
  The argument is always the list that \<open>.tolist()\<close> returned.
\<close>

definition get_product_details :: "frame \<Rightarrow> pyval list \<Rightarrow> pyexc + string" where
  "get_product_details products product_ids =
     (if product_ids = [] then Inr []
      else case getcol products ''Product_ID'' of
             Inl e \<Rightarrow> Inl e
           | Inr ids \<Rightarrow>
              (case getcol (select_rows (map (\<lambda>v. v \<in> set product_ids) ids) products)
                      ''Product_Name'' of
                 Inl e \<Rightarrow> Inl e
               | Inr names \<Rightarrow> str_join '', '' names))"

text \<open>
  \<^verbatim>\<open>
      def safe_literal_eval(val):
          try: return ast.literal_eval(val)
          except (ValueError, SyntaxError): return []
  \<close>
  Any other exception of \<open>ast.literal_eval\<close> passes through.
\<close>

definition safe_literal_eval :: "pylib \<Rightarrow> pyval \<Rightarrow> pyexc + pyval" where
  "safe_literal_eval lib val =
     (case literal_eval lib val of
        Inr v \<Rightarrow> Inr v
      | Inl (PyExc cls msg) \<Rightarrow>
          if cls = ValueError \<or> cls = SyntaxError then Inr (PList []) else Inl (PyExc cls msg))"

text \<open>The statement \<open>df[c] = df[c].apply(safe_literal_eval)\<close>.\<close>

definition parse_column :: "pylib \<Rightarrow> frame \<Rightarrow> string \<Rightarrow> pyexc + frame" where
  "parse_column lib df c =
     (case getcol df c of
        Inl e \<Rightarrow> Inl e
      | Inr cells \<Rightarrow>
         (case map_exc (safe_literal_eval lib) cells of
            Inl e \<Rightarrow> Inl e
          | Inr parsed \<Rightarrow> Inr (setcol df c parsed)))"

text \<open>The selection \<open>df[df['Customer_ID'] == customer_id]\<close>.\<close>

definition rows_of_customer :: "frame \<Rightarrow> string \<Rightarrow> pyexc + frame" where
  "rows_of_customer df customer_id =
     (case getcol df ''Customer_ID'' of
        Inl e \<Rightarrow> Inl e
      | Inr ids \<Rightarrow> Inr (select_rows (map (\<lambda>v. v = PStr customer_id) ids) df))"

text \<open>
  The clause built from one column of product ids (lines 99--100, 104--105 and
  109--110 of the source, which differ only in the column and the label):
  \<^verbatim>\<open>
      ids = np.concatenate(cust_rows[column].values).tolist()
      if ids: profile_parts.append(f"<label>{self._get_product_details(ids)}.")
  \<close>
\<close>

definition ids_clause :: "pylib \<Rightarrow> frame \<Rightarrow> string \<Rightarrow> string \<Rightarrow> frame \<Rightarrow> pyexc + string list" where
  "ids_clause lib products label column cust_rows =
     (case getcol cust_rows column of
        Inl e \<Rightarrow> Inl e
      | Inr cells \<Rightarrow>
         (case concatenate lib cells of
            Inl e \<Rightarrow> Inl e
          | Inr ids \<Rightarrow>
              if ids = [] then Inr []
              else (case get_product_details products ids of
                      Inl e \<Rightarrow> Inl e
                    | Inr names \<Rightarrow> Inr [label @ names @ ''.''])))"

text \<open>
  Lines 95--100, after the sessions table has been parsed:
  \<^verbatim>\<open>
      cust_sessions = sessions_df[sessions_df['Customer_ID'] == customer_id].head(7)
      if not cust_sessions.empty:
          searches = cust_sessions['Search_Queries'].unique()
          profile_parts.append(f"Searched for: {', '.join(searches)}.")
          clicked_ids = ...
  \<close>
\<close>

definition sessions_clauses :: "pylib \<Rightarrow> frame \<Rightarrow> string \<Rightarrow> frame \<Rightarrow> pyexc + string list" where
  "sessions_clauses lib products customer_id sessions_df =
     (case rows_of_customer sessions_df customer_id of
        Inl e \<Rightarrow> Inl e
      | Inr matching \<Rightarrow>
         (let cust_sessions = head 7 matching
          in if is_empty cust_sessions then Inr []
             else case getcol cust_sessions ''Search_Queries'' of
                    Inl e \<Rightarrow> Inl e
                  | Inr queries \<Rightarrow>
                     (case str_join '', '' (unique queries) of
                        Inl e \<Rightarrow> Inl e
                      | Inr searches \<Rightarrow>
                         (case ids_clause lib products ''Interested in: ''
                                 ''Clicked_Product_IDs'' cust_sessions of
                            Inl e \<Rightarrow> Inl e
                          | Inr clicked \<Rightarrow>
                              Inr ((''Searched for: '' @ searches @ ''.'') # clicked)))))"

text \<open>Lines 102--105, after the transactions table has been parsed.\<close>

definition transactions_clauses :: "pylib \<Rightarrow> frame \<Rightarrow> string \<Rightarrow> frame \<Rightarrow> pyexc + string list" where
  "transactions_clauses lib products customer_id transactions_df =
     (case rows_of_customer transactions_df customer_id of
        Inl e \<Rightarrow> Inl e
      | Inr matching \<Rightarrow>
         (let cust_transactions = head 7 matching
          in if is_empty cust_transactions then Inr []
             else ids_clause lib products ''Purchased: '' ''Purchased_Product_IDs''
                    cust_transactions))"

text \<open>Lines 107--110, after the wishlists table has been parsed; no row cap.\<close>

definition wishlists_clauses :: "pylib \<Rightarrow> frame \<Rightarrow> string \<Rightarrow> frame \<Rightarrow> pyexc + string list" where
  "wishlists_clauses lib products customer_id wishlists_df =
     (case rows_of_customer wishlists_df customer_id of
        Inl e \<Rightarrow> Inl e
      | Inr cust_wishlists \<Rightarrow>
          if is_empty cust_wishlists then Inr []
          else ids_clause lib products ''Wants: '' ''Wishlist Items'' cust_wishlists)"

text \<open>\<open>except Exception as e: return f"Error building profile: {e}"\<close>.\<close>

definition error_profile :: "pyexc \<Rightarrow> string" where
  "error_profile e = (case e of PyExc cls msg \<Rightarrow> ''Error building profile: '' @ msg)"

text \<open>
  \<open>build_customer_profile\<close> assigns to a column of each of its three table
  arguments, so the caller's tables change: the model returns the profile
  together with the three tables as the call leaves them.  An exception
  anywhere inside the \<open>try\<close> ends the call with the error profile, and with the
  tables as they are at that moment.  The three tables are distinct objects.
  \<^verbatim>\<open>
      return " ".join(profile_parts) if profile_parts else "No activity data found"
  \<close>
\<close>

definition build_customer_profile ::
    "pylib \<Rightarrow> frame \<Rightarrow> string \<Rightarrow> frame \<Rightarrow> frame \<Rightarrow> frame \<Rightarrow> string \<times> frame \<times> frame \<times> frame" where
  "build_customer_profile lib products customer_id sessions_df transactions_df wishlists_df =
     (case parse_column lib sessions_df ''Clicked_Product_IDs'' of
        Inl e \<Rightarrow> (error_profile e, sessions_df, transactions_df, wishlists_df)
      | Inr sessions_df' \<Rightarrow>
     (case sessions_clauses lib products customer_id sessions_df' of
        Inl e \<Rightarrow> (error_profile e, sessions_df', transactions_df, wishlists_df)
      | Inr parts1 \<Rightarrow>
     (case parse_column lib transactions_df ''Purchased_Product_IDs'' of
        Inl e \<Rightarrow> (error_profile e, sessions_df', transactions_df, wishlists_df)
      | Inr transactions_df' \<Rightarrow>
     (case transactions_clauses lib products customer_id transactions_df' of
        Inl e \<Rightarrow> (error_profile e, sessions_df', transactions_df', wishlists_df)
      | Inr parts2 \<Rightarrow>
     (case parse_column lib wishlists_df ''Wishlist Items'' of
        Inl e \<Rightarrow> (error_profile e, sessions_df', transactions_df', wishlists_df)
      | Inr wishlists_df' \<Rightarrow>
     (case wishlists_clauses lib products customer_id wishlists_df' of
        Inl e \<Rightarrow> (error_profile e, sessions_df', transactions_df', wishlists_df')
      | Inr parts3 \<Rightarrow>
         (let profile_parts = parts1 @ parts2 @ parts3
          in (if profile_parts \<noteq> [] then join_strings '' '' profile_parts
              else ''No activity data found'',
              sessions_df', transactions_df', wishlists_df'))))))))"

subsection \<open>Recommendations from the customer's history\<close>

text \<open>
  \<^verbatim>\<open>
  def get_recommendations_for_customer(self, customer_id, sessions_df, transactions_df, wishlists_df, gender=None):
      customer_profile = self.build_customer_profile(customer_id, sessions_df, transactions_df, wishlists_df)
      if "No activity data" in customer_profile or "Error" in customer_profile: return []
      if self.index is None or self.client is None: return []
      normalized_gender = normalize_gender(gender)
      search_profile = f"{normalized_gender} {customer_profile}" if normalized_gender else customer_profile
      response = self.client.embeddings.create(input=[search_profile], model=self.embedding_model)
      query_vector = np.array([response.data[0].embedding]).astype('float32')
      distances, indices = self.index.search(query_vector, 5)
      results = [] ...
  \<close>
  There is no \<open>try\<close> in this method.  The result is the outcome, the texts sent
  to the embedding service, and the three tables as the call leaves them.
\<close>

definition get_recommendations_for_customer ::
    "pylib \<Rightarrow> 'v customer_rag \<Rightarrow> string \<Rightarrow> frame \<Rightarrow> frame \<Rightarrow> frame \<Rightarrow> string option
      \<Rightarrow> (pyexc + pydict list) \<times> string list \<times> frame \<times> frame \<times> frame" where
  "get_recommendations_for_customer lib self customer_id sessions_df transactions_df wishlists_df gender =
     (case build_customer_profile lib (products_df self) customer_id
             sessions_df transactions_df wishlists_df of
        (customer_profile, sessions_df', transactions_df', wishlists_df') \<Rightarrow>
          if str_contains ''No activity data'' customer_profile \<or> str_contains ''Error'' customer_profile
          then (Inr [], [], sessions_df', transactions_df', wishlists_df')
          else (case (index self, client self) of
                  (Some index_search, Some create_embedding) \<Rightarrow>
                    (let search_profile = with_gender_hint lib gender customer_profile
                     in case create_embedding search_profile of
                          Inl e \<Rightarrow> (Inl e, [search_profile], sessions_df', transactions_df', wishlists_df')
                        | Inr query_vector \<Rightarrow>
                           (case index_search query_vector 5 of
                              Inl e \<Rightarrow>
                                (Inl e, [search_profile], sessions_df', transactions_df', wishlists_df')
                            | Inr indices \<Rightarrow>
                                (hydrate lib (product_details self) indices, [search_profile],
                                 sessions_df', transactions_df', wishlists_df')))
                | _ \<Rightarrow> (Inr [], [], sessions_df', transactions_df', wishlists_df')))"

section \<open>Notions of the specification\<close>

text \<open>
  The five tests of the women's schema, as the specification numbers them:
  \<^item> 1. waist/shoulders and waist/bust both at least 1.05: Apple;
  \<^item> 2. shoulders/hips or bust/hips at least 1.05: Inverted Triangle;
  \<^item> 3. hips/shoulders or hips/bust at least 1.05: Pear;
  \<^item> 4. waist/shoulders and waist/bust both at least 0.75: Rectangle;
  \<^item> 5. waist/shoulders or waist/bust at most 0.75, and waist/hips at most 0.75:
    Hourglass.
\<close>

definition apple_test :: "real \<Rightarrow> real \<Rightarrow> real \<Rightarrow> real \<Rightarrow> bool" where
  "apple_test shoulders bust waist hips \<longleftrightarrow>
     waist / shoulders \<ge> 1.05 \<and> waist / bust \<ge> 1.05"

definition inverted_triangle_test :: "real \<Rightarrow> real \<Rightarrow> real \<Rightarrow> real \<Rightarrow> bool" where
  "inverted_triangle_test shoulders bust waist hips \<longleftrightarrow>
     shoulders / hips \<ge> 1.05 \<or> bust / hips \<ge> 1.05"

definition pear_test :: "real \<Rightarrow> real \<Rightarrow> real \<Rightarrow> real \<Rightarrow> bool" where
  "pear_test shoulders bust waist hips \<longleftrightarrow>
     hips / shoulders \<ge> 1.05 \<or> hips / bust \<ge> 1.05"

definition rectangle_test :: "real \<Rightarrow> real \<Rightarrow> real \<Rightarrow> real \<Rightarrow> bool" where
  "rectangle_test shoulders bust waist hips \<longleftrightarrow>
     waist / shoulders \<ge> 0.75 \<and> waist / bust \<ge> 0.75"

definition hourglass_test :: "real \<Rightarrow> real \<Rightarrow> real \<Rightarrow> real \<Rightarrow> bool" where
  "hourglass_test shoulders bust waist hips \<longleftrightarrow>
     (waist / shoulders \<le> 0.75 \<or> waist / bust \<le> 0.75) \<and> waist / hips \<le> 0.75"

text \<open>
  The key set that the specification lists for a display record, and the keys
  that \<open>format_product_dictionary\<close> assigns.
\<close>

definition display_keys :: "string set" where
  "display_keys =
     {''id'', ''name'', ''price'', ''raw_price'', ''brand'', ''color'', ''gender'', ''image_url'',
      ''rating'', ''reviews'', ''category'', ''description'', ''material'', ''size''}"

definition formatted_keys :: "string set" where
  "formatted_keys =
     {''id'', ''name'', ''price'', ''raw_price'', ''gender'', ''image_url'',
      ''reviews'', ''category'', ''description'', ''material'', ''size''}"







section \<open>Example data\<close>

text \<open>
  A concrete library for the examples.  \<open>example_literal_eval\<close> agrees with
  \<open>ast.literal_eval\<close> on the cells of the example tables, and
  \<open>example_concatenate\<close> with \<open>np.concatenate(...).tolist()\<close> on columns of flat
  lists of strings.  The text \<open>{[]: 1}\<close> is a dictionary display whose key is a
  list: \<open>ast.literal_eval\<close> raises \<open>TypeError\<close> on it (a list is unhashable),
  which is neither of the two classes that \<open>safe_literal_eval\<close> catches.
\<close>

definition example_literal_eval :: "pyval \<Rightarrow> pyexc + pyval" where
  "example_literal_eval val =
     (case val of
        PStr s \<Rightarrow>
          (if s = ''[]'' then Inr (PList [])
           else if s = ''['P1']'' then Inr (PList [PStr ''P1''])
           else if s = ''['P1', 'P2']'' then Inr (PList [PStr ''P1'', PStr ''P2''])
           else if s = ''{[]: 1}''
             then Inl (PyExc TypeError (''unhashable type: '' @ squote # ''list'' @ [squote]))
           else Inl (PyExc SyntaxError ''invalid syntax''))
      | _ \<Rightarrow> Inl (PyExc ValueError ''malformed node or string''))"

fun example_concatenate :: "pyval list \<Rightarrow> pyexc + pyval list" where
  "example_concatenate [] = Inr []"
| "example_concatenate (PList xs # rest) =
     (case example_concatenate rest of Inl e \<Rightarrow> Inl e | Inr ys \<Rightarrow> Inr (xs @ ys))"
| "example_concatenate (v # rest) =
     Inl (PyExc ValueError ''zero-dimensional arrays cannot be concatenated'')"

definition example_lib :: pylib where
  "example_lib =
     \<lparr> build_url = (\<lambda>product_id. PStr ''https://res.example/image''),
       float_format = (\<lambda>x. ''0.0''),
       float_str = (\<lambda>x. ''0.0''),
       list_str = (\<lambda>xs. ''[...]''),
       literal_eval = example_literal_eval,
       concatenate = example_concatenate \<rparr>"

text \<open>A catalog of four products; the third has no gender field.\<close>

definition example_shirt :: pydict where
  "example_shirt =
     [''Product_ID'' \<mapsto> PStr ''P1'', ''Product_Name'' \<mapsto> PStr ''Linen Shirt'',
      ''Price'' \<mapsto> PInt 250000, ''Brand'' \<mapsto> PStr ''Acme'',
      ''Gender_Orientation'' \<mapsto> PStr ''Male'', ''Rating'' \<mapsto> PFloat 4.5,
      ''Number_of_Reviews'' \<mapsto> PInt 10]"

definition example_dress :: pydict where
  "example_dress =
     [''Product_ID'' \<mapsto> PStr ''P2'', ''Product_Name'' \<mapsto> PStr ''Summer Dress'',
      ''Price'' \<mapsto> PInt 400000, ''Gender_Orientation'' \<mapsto> PStr ''Women'',
      ''Rating'' \<mapsto> PInt 5, ''Number_of_Reviews'' \<mapsto> PInt 90]"

definition example_scarf :: pydict where
  "example_scarf =
     [''Product_ID'' \<mapsto> PStr ''P3'', ''Product_Name'' \<mapsto> PStr ''Scarf'',
      ''Price'' \<mapsto> PInt 90000, ''Rating'' \<mapsto> PInt 5, ''Number_of_Reviews'' \<mapsto> PInt 70]"

definition example_jeans :: pydict where
  "example_jeans =
     [''Product_ID'' \<mapsto> PStr ''P4'', ''Product_Name'' \<mapsto> PStr ''Jeans'',
      ''Price'' \<mapsto> PInt 1350000, ''Gender_Orientation'' \<mapsto> PStr ''men'',
      ''Rating'' \<mapsto> PInt 4, ''Number_of_Reviews'' \<mapsto> PInt 25, ''Discount'' \<mapsto> PStr ''20% off'']"

definition example_catalog :: "pydict list" where
  "example_catalog = [example_shirt, example_dress, example_scarf, example_jeans]"

text \<open>
  A retriever whose index answers every query with the ordinals \<open>-1, 5, 2\<close>,
  over a detail array of six records.
\<close>

definition example_details :: "pydict list" where
  "example_details =
     [example_shirt, example_dress, example_scarf, example_jeans, example_shirt, example_dress]"

definition example_rag :: "nat base_rag" where
  "example_rag =
     \<lparr> client = Some (\<lambda>text. Inr (length text)),
       index = Some (\<lambda>query_vector k. Inr [- 1, 5, 2]),
       product_details = example_details \<rparr>"

text \<open>
  The tables of the history retriever.  Customer \<open>C1\<close> searched for a text that
  contains the word ``Error''; customer \<open>C2\<close> has sessions and a purchase;
  customer \<open>C3\<close> has no row in any table.
\<close>

definition example_products_df :: frame where
  "example_products_df =
     [(''Product_ID'', [PStr ''P1'', PStr ''P2'']),
      (''Product_Name'', [PStr ''Linen Shirt'', PStr ''Summer Dress''])]"

definition example_sessions :: frame where
  "example_sessions =
     [(''Customer_ID'', [PStr ''C1'', PStr ''C2'']),
      (''Search_Queries'', [PStr ''Error 404 shirt'', PStr ''blue jeans'']),
      (''Clicked_Product_IDs'', [PStr ''[]'', PStr ''['P1']''])]"

definition example_transactions :: frame where
  "example_transactions =
     [(''Customer_ID'', [PStr ''C2'']),
      (''Purchased_Product_IDs'', [PStr ''['P1', 'P2']''])]"

definition example_wishlists :: frame where
  "example_wishlists =
     [(''Customer_ID'', [PStr ''C2'']),
      (''Wishlist Items'', [PStr ''[]''])]"


text \<open>
  Two customer retrievers over the example tables: one whose embedding service
  answers, and one whose embedding service fails on every call.
\<close>

definition example_customer_rag :: "nat customer_rag" where
  "example_customer_rag =
     \<lparr> client = Some (\<lambda>text. Inr (length text)),
       index = Some (\<lambda>query_vector k. Inr [- 1, 5, 2]),
       product_details = example_details,
       products_df = example_products_df \<rparr>"

definition failing_customer_rag :: "nat customer_rag" where
  "failing_customer_rag =
     \<lparr> client = Some (\<lambda>text. Inl (PyExc OtherException ''Connection error.'')),
       index = Some (\<lambda>query_vector k. Inr [- 1, 5, 2]),
       product_details = example_details,
       products_df = example_products_df \<rparr>"

section \<open>Gender normalisation\<close>

lemma lower_char_preimage:
  assumes "lower_char c = d"
  shows "c = d \<or> (c, d) \<in> set (zip ''ABCDEFGHIJKLMNOPQRSTUVWXYZ'' ''abcdefghijklmnopqrstuvwxyz'')"
proof -
  define T where "T = zip ''ABCDEFGHIJKLMNOPQRSTUVWXYZ'' ''abcdefghijklmnopqrstuvwxyz''"
  have eq: "lower_char c = (case map_of T c of Some d \<Rightarrow> d | None \<Rightarrow> c)"
    by (simp only: lower_char_def T_def)
  show ?thesis
  proof (cases "map_of T c")
    case None
    then show ?thesis using assms eq by simp
  next
    case (Some e)
    then have "(c, e) \<in> set T" by (rule map_of_SomeD)
    moreover have "e = d" using assms eq Some by simp
    ultimately show ?thesis unfolding T_def by blast
  qed
qed

lemma token_letter_upper:
  assumes "d \<in> set ''malenfwo''"
  shows "lower_char d = d \<and> lower_char (upper_char d) = d
         \<and> ((c, d) \<in> set (zip ''ABCDEFGHIJKLMNOPQRSTUVWXYZ'' ''abcdefghijklmnopqrstuvwxyz'')
              \<longrightarrow> c = upper_char d)"
proof -
  from assms consider "d = CHR ''m''" | "d = CHR ''a''" | "d = CHR ''l''" | "d = CHR ''e''"
    | "d = CHR ''n''" | "d = CHR ''f''" | "d = CHR ''w''" | "d = CHR ''o''"
    by auto
  then show ?thesis
    by cases (simp_all add: lower_char_def upper_char_def)
qed

lemma lower_char_cases:
  "lower_char c = d \<Longrightarrow> d \<in> set ''malenfwo'' \<Longrightarrow> c = d \<or> c = upper_char d"
  using lower_char_preimage[of c d] token_letter_upper[of d c] by blast

lemma casing_of_lower:
  "casing_of s token \<Longrightarrow> set token \<subseteq> set ''malenfwo'' \<Longrightarrow> lower s = token"
  unfolding casing_of_def lower_def
proof (induction s token rule: list_all2_induct)
  case Nil
  then show ?case by simp
next
  case (Cons c s d token)
  from Cons.prems have d: "d \<in> set ''malenfwo''" by simp
  have "lower_char c = d"
    using Cons.hyps(1) token_letter_upper[OF d] by blast
  moreover have "map lower_char s = token" using Cons by simp
  ultimately show ?case by simp
qed

lemma lower_casing_of:
  "lower s = token \<Longrightarrow> set token \<subseteq> set ''malenfwo'' \<Longrightarrow> casing_of s token"
  unfolding casing_of_def lower_def
proof (induction s arbitrary: token)
  case Nil
  then show ?case by simp
next
  case (Cons c s)
  then obtain d rest where t: "token = d # rest" "lower_char c = d" "map lower_char s = rest"
    by auto
  with Cons.prems have d: "d \<in> set ''malenfwo''" by simp
  have "c = d \<or> c = upper_char d" using lower_char_cases[OF t(2) d] .
  moreover have "list_all2 (\<lambda>c d. c = d \<or> c = upper_char d) s rest"
    using Cons.IH[OF t(3)] Cons.prems(2) t(1) by simp
  ultimately show ?case using t(1) by simp
qed

lemma lower_iff_casing_of:
  "set token \<subseteq> set ''malenfwo'' \<Longrightarrow> lower s = token \<longleftrightarrow> casing_of s token"
  using casing_of_lower lower_casing_of by blast

lemma lower_Men: "lower ''Men'' = ''men''"
  by (simp add: lower_def lower_char_def)

lemma lower_Women: "lower ''Women'' = ''women''"
  by (simp add: lower_def lower_char_def)

lemma normalize_gender_cases:
  "normalize_gender v = PStr ''Men'' \<or> normalize_gender v = PStr ''Women'' \<or> normalize_gender v = v"
  by (cases v) (simp_all add: Let_def)

lemma normalize_gender_Men: "normalize_gender (PStr ''Men'') = PStr ''Men''"
  by (simp add: lower_Men)

lemma normalize_gender_Women: "normalize_gender (PStr ''Women'') = PStr ''Women''"
  by (simp add: lower_Women)

lemma normalize_gender_idem: "normalize_gender (normalize_gender v) = normalize_gender v"
  using normalize_gender_cases[of v] normalize_gender_Men normalize_gender_Women by auto

text \<open>
  Claim C5.  \<open>normalize_gender\<close> is idempotent on every string (indeed on every
  value); every casing of ``male'' or ``men'' is mapped to ``Men'' and every
  casing of ``female'' or ``women'' to ``Women''; a string that is not a casing
  of one of the four tokens is returned unchanged, and so is every value that
  is not a string, \<open>None\<close> in particular.
\<close>

theorem normalize_gender_idempotent_case_insensitive:
  "normalize_gender (normalize_gender (PStr x)) = normalize_gender (PStr x)
   \<and> (casing_of s ''male'' \<or> casing_of s ''men'' \<longrightarrow> normalize_gender (PStr s) = PStr ''Men'')
   \<and> (casing_of s ''female'' \<or> casing_of s ''women'' \<longrightarrow> normalize_gender (PStr s) = PStr ''Women'')
   \<and> (\<not> casing_of y ''male'' \<and> \<not> casing_of y ''men'' \<and> \<not> casing_of y ''female''
        \<and> \<not> casing_of y ''women'' \<longrightarrow> normalize_gender (PStr y) = PStr y)
   \<and> ((\<forall>t. v \<noteq> PStr t) \<longrightarrow> normalize_gender v = v)
   \<and> normalize_gender PNone = PNone"
proof -
  have male: "lower z = ''male'' \<longleftrightarrow> casing_of z ''male''" for z
    by (rule lower_iff_casing_of) simp
  have men: "lower z = ''men'' \<longleftrightarrow> casing_of z ''men''" for z
    by (rule lower_iff_casing_of) simp
  have female: "lower z = ''female'' \<longleftrightarrow> casing_of z ''female''" for z
    by (rule lower_iff_casing_of) simp
  have women: "lower z = ''women'' \<longleftrightarrow> casing_of z ''women''" for z
    by (rule lower_iff_casing_of) simp
  have c1: "normalize_gender (normalize_gender (PStr x)) = normalize_gender (PStr x)"
    by (rule normalize_gender_idem)
  have c2: "casing_of s ''male'' \<or> casing_of s ''men'' \<longrightarrow> normalize_gender (PStr s) = PStr ''Men''"
    using male[of s] men[of s] by (auto simp: Let_def)
  have c3: "casing_of s ''female'' \<or> casing_of s ''women''
              \<longrightarrow> normalize_gender (PStr s) = PStr ''Women''"
    using female[of s] women[of s] by (auto simp: Let_def)
  have c4: "\<not> casing_of y ''male'' \<and> \<not> casing_of y ''men'' \<and> \<not> casing_of y ''female''
              \<and> \<not> casing_of y ''women'' \<longrightarrow> normalize_gender (PStr y) = PStr y"
    using male[of y] men[of y] female[of y] women[of y] by (simp add: Let_def)
  have c5: "(\<forall>t. v \<noteq> PStr t) \<longrightarrow> normalize_gender v = v"
    by (cases v) simp_all
  show ?thesis using c1 c2 c3 c4 c5 by simp
qed

theorem normalize_gender_idempotent_case_insensitive_witness:
  "casing_of ''MaLe'' ''male'' \<and> normalize_gender (PStr ''MaLe'') = PStr ''Men''
   \<and> casing_of ''WOMEN'' ''women'' \<and> normalize_gender (PStr ''WOMEN'') = PStr ''Women''
   \<and> \<not> casing_of ''Unisex'' ''male'' \<and> \<not> casing_of ''Unisex'' ''men''
   \<and> \<not> casing_of ''Unisex'' ''female'' \<and> \<not> casing_of ''Unisex'' ''women''
   \<and> normalize_gender (PStr ''Unisex'') = PStr ''Unisex''
   \<and> (\<forall>t. PInt 7 \<noteq> PStr t) \<and> normalize_gender (PInt 7) = PInt 7"
proof -
  have a: "casing_of ''MaLe'' ''male''"
    by (simp add: casing_of_def upper_char_def)
  have b: "casing_of ''WOMEN'' ''women''"
    by (simp add: casing_of_def upper_char_def)
  have c: "\<not> casing_of ''Unisex'' ''male'' \<and> \<not> casing_of ''Unisex'' ''men''
           \<and> \<not> casing_of ''Unisex'' ''female'' \<and> \<not> casing_of ''Unisex'' ''women''"
    by (simp add: casing_of_def upper_char_def)
  have d: "\<forall>t. PInt 7 \<noteq> PStr t" by simp
  show ?thesis
    using a b c d
      normalize_gender_idempotent_case_insensitive[of "''x''" "''MaLe''" "''Unisex''" "PInt 7"]
      normalize_gender_idempotent_case_insensitive[of "''x''" "''WOMEN''" "''Unisex''" "PInt 7"]
    by blast
qed

section \<open>Body-shape classifiers\<close>

text \<open>
  Claim C3.  Whenever one of the measurements is zero or negative, the women's
  classifier and the men's classifier both answer ``unknown''.  The women's
  classifier has a guard for it; in the men's classifier every rule needs all
  three measurements to be at least 71.12.
\<close>

theorem classifiers_unknown_when_not_positive:
  "(shoulders \<le> 0 \<or> bust \<le> 0 \<or> waist \<le> 0 \<or> hips \<le> 0
      \<longrightarrow> determine_women_shape_by_ratio shoulders bust waist hips = ''unknown'')
   \<and> (chest \<le> 0 \<or> mwaist \<le> 0 \<or> mhips \<le> 0
      \<longrightarrow> determine_men_shape_by_logic chest mwaist mhips = ''unknown'')"
  by (auto simp: determine_women_shape_by_ratio_def determine_men_shape_by_logic_def between_def)

theorem classifiers_unknown_when_not_positive_witness:
  "((96::real) \<le> 0 \<or> (90::real) \<le> 0 \<or> (0::real) \<le> 0 \<or> (98::real) \<le> 0)
   \<and> determine_women_shape_by_ratio 96 90 0 98 = ''unknown''
   \<and> ((80::real) \<le> 0 \<or> (80::real) \<le> 0 \<or> (- 5::real) \<le> 0)
   \<and> determine_men_shape_by_logic 80 80 (- 5) = ''unknown''"
  using classifiers_unknown_when_not_positive[of 96 90 0 98 80 80 "- 5"] by simp

text \<open>
  Claim C4.  The women's classifier evaluates its five tests in order and the
  first one that holds decides: for positive measurements it answers with the
  label of a test exactly when that test holds and none of the earlier ones
  does, and ``unknown'' exactly when none holds.  For shoulders 100, bust 100,
  waist 106 and hips 100 it answers ``Apple'': test 1 holds there, and so does
  test 4 (``Rectangle''), which is not reached.
\<close>

theorem women_classifier_first_match_wins:
  "(0 < shoulders \<and> 0 < bust \<and> 0 < waist \<and> 0 < hips \<longrightarrow>
      (determine_women_shape_by_ratio shoulders bust waist hips = ''Apple''
         \<longleftrightarrow> apple_test shoulders bust waist hips)
    \<and> (determine_women_shape_by_ratio shoulders bust waist hips = ''Inverted Triangle''
         \<longleftrightarrow> \<not> apple_test shoulders bust waist hips
             \<and> inverted_triangle_test shoulders bust waist hips)
    \<and> (determine_women_shape_by_ratio shoulders bust waist hips = ''Pear''
         \<longleftrightarrow> \<not> apple_test shoulders bust waist hips
             \<and> \<not> inverted_triangle_test shoulders bust waist hips
             \<and> pear_test shoulders bust waist hips)
    \<and> (determine_women_shape_by_ratio shoulders bust waist hips = ''Rectangle''
         \<longleftrightarrow> \<not> apple_test shoulders bust waist hips
             \<and> \<not> inverted_triangle_test shoulders bust waist hips
             \<and> \<not> pear_test shoulders bust waist hips
             \<and> rectangle_test shoulders bust waist hips)
    \<and> (determine_women_shape_by_ratio shoulders bust waist hips = ''Hourglass''
         \<longleftrightarrow> \<not> apple_test shoulders bust waist hips
             \<and> \<not> inverted_triangle_test shoulders bust waist hips
             \<and> \<not> pear_test shoulders bust waist hips
             \<and> \<not> rectangle_test shoulders bust waist hips
             \<and> hourglass_test shoulders bust waist hips)
    \<and> (determine_women_shape_by_ratio shoulders bust waist hips = ''unknown''
         \<longleftrightarrow> \<not> apple_test shoulders bust waist hips
             \<and> \<not> inverted_triangle_test shoulders bust waist hips
             \<and> \<not> pear_test shoulders bust waist hips
             \<and> \<not> rectangle_test shoulders bust waist hips
             \<and> \<not> hourglass_test shoulders bust waist hips))
   \<and> determine_women_shape_by_ratio 100 100 106 100 = ''Apple''
   \<and> apple_test 100 100 106 100
   \<and> rectangle_test 100 100 106 100"
  by (simp add: determine_women_shape_by_ratio_def apple_test_def inverted_triangle_test_def
        pear_test_def rectangle_test_def hourglass_test_def)

theorem women_classifier_first_match_wins_witness:
  "(0::real) < 110 \<and> (0::real) < 90 \<and> (0::real) < 85 \<and> (0::real) < 100
   \<and> \<not> apple_test 110 90 85 100
   \<and> inverted_triangle_test 110 90 85 100
   \<and> pear_test 110 90 85 100
   \<and> rectangle_test 110 90 85 100
   \<and> determine_women_shape_by_ratio 110 90 85 100 = ''Inverted Triangle''"
  using women_classifier_first_match_wins[of 110 90 85 100]
  by (simp add: apple_test_def inverted_triangle_test_def pear_test_def rectangle_test_def)

section \<open>Retrieval by query\<close>

lemma list_index_nonneg:
  "0 \<le> i \<Longrightarrow> list_index xs i = (if nat i < length xs then Inr (xs ! nat i)
       else Inl (PyExc IndexError ''list index out of range''))"
  by (auto simp: list_index_def Let_def)

lemma hydrate_5_2:
  "hydrate lib details [- 1, 5, 2] = Inr results \<longleftrightarrow>
     (\<exists>r5 r2. results = [r5, r2] \<and> 5 < length details
        \<and> display_record lib 5 (details ! 5) = Inr r5
        \<and> display_record lib 2 (details ! 2) = Inr r2)"
  by (auto simp: list_index_nonneg split: sum.splits)

lemma display_record_int_price:
  "item ''Price'' = Some (PInt i) \<Longrightarrow> \<not> isl (display_record lib idx item)"
  by (simp add: display_record_def Let_def get_or_def)



section \<open>Failure of the embedding service\<close>

lemma search_embedding_failure:
  assumes "index self = Some index_search" and "client self = Some create_embedding"
      and "create_embedding (with_gender_hint lib gender query) = Inl e"
  shows "search lib self query k gender = (Inr [], [with_gender_hint lib gender query])"
  using assms by (simp add: search_def Let_def)

lemma recommendations_embedding_failure:
  assumes "index self = Some index_search" and "client self = Some create_embedding"
      and "fst (build_customer_profile lib (products_df self) customer_id
                  sessions_df transactions_df wishlists_df) = profile"
      and "\<not> str_contains ''No activity data'' profile" and "\<not> str_contains ''Error'' profile"
      and "create_embedding (with_gender_hint lib gender profile) = Inl e"
  shows "fst (get_recommendations_for_customer lib self customer_id
                sessions_df transactions_df wishlists_df gender) = Inl e"
proof -
  obtain p s' t' w' where b: "build_customer_profile lib (products_df self) customer_id
      sessions_df transactions_df wishlists_df = (p, s', t', w')"
    using prod_cases4 by blast
  with assms show ?thesis
    by (simp add: get_recommendations_for_customer_def Let_def)
qed

lemma profile_C2:
  "fst (build_customer_profile example_lib example_products_df ''C2''
          example_sessions example_transactions example_wishlists)
   = ''Searched for: blue jeans. Interested in: Linen Shirt. Purchased: Linen Shirt, Summer Dress.''"
  by code_simp

lemma profile_C2_usable:
  "\<not> str_contains ''No activity data''
        ''Searched for: blue jeans. Interested in: Linen Shirt. Purchased: Linen Shirt, Summer Dress.''
   \<and> \<not> str_contains ''Error''
        ''Searched for: blue jeans. Interested in: Linen Shirt. Purchased: Linen Shirt, Summer Dress.''"
  by code_simp

text \<open>
  Claim C1.  With an embedding service that fails on every call, \<open>search\<close>
  returns the empty list, but \<open>get_recommendations_for_customer\<close>, for a
  customer whose profile is usable, ends with the exception of the embedding
  service: it has no handler around the call.
\<close>

theorem embedding_failure_search_empty_recommend_raises:
  "fst (search example_lib failing_customer_rag ''shirt'' 8 None) = Inr []
   \<and> fst (get_recommendations_for_customer example_lib failing_customer_rag ''C2''
            example_sessions example_transactions example_wishlists None)
       = Inl (PyExc OtherException ''Connection error.'')"
proof -
  have a: "fst (search example_lib failing_customer_rag ''shirt'' 8 None) = Inr []"
    by (subst search_embedding_failure) (simp_all add: failing_customer_rag_def)
  have b: "fst (get_recommendations_for_customer example_lib failing_customer_rag ''C2''
            example_sessions example_transactions example_wishlists None)
       = Inl (PyExc OtherException ''Connection error.'')"
    apply (rule recommendations_embedding_failure[where
          profile = "''Searched for: blue jeans. Interested in: Linen Shirt. Purchased: Linen Shirt, Summer Dress.''"])
    using profile_C2 profile_C2_usable
    by (simp_all add: failing_customer_rag_def)
  show ?thesis using a b by simp
qed

section \<open>Recommendations without an embedding call\<close>

lemma profile_C1:
  "fst (build_customer_profile example_lib example_products_df ''C1''
          example_sessions example_transactions example_wishlists) = ''Searched for: Error 404 shirt.''"
  by code_simp

text \<open>
  Claim C10.  Whenever the profile that \<open>build_customer_profile\<close> returns
  contains ``No activity data'' or ``Error'' anywhere,
  \<open>get_recommendations_for_customer\<close> returns the empty list and sends nothing
  to the embedding service; the tables are left as the profile build left them.
  The profile of customer \<open>C1\<close>, who searched for ``Error 404 shirt'', is such
  a profile.
\<close>

theorem recommendations_short_circuit:
  assumes "build_customer_profile lib (products_df self) customer_id
             sessions_df transactions_df wishlists_df = (profile, s', t', w')"
      and "str_contains ''No activity data'' profile \<or> str_contains ''Error'' profile"
  shows "get_recommendations_for_customer lib self customer_id
           sessions_df transactions_df wishlists_df gender = (Inr [], [], s', t', w')"
  using assms by (simp add: get_recommendations_for_customer_def)

theorem recommendations_short_circuit_witness:
  "fst (build_customer_profile example_lib (products_df example_customer_rag) ''C1''
          example_sessions example_transactions example_wishlists) = ''Searched for: Error 404 shirt.''
   \<and> str_contains ''Error'' ''Searched for: Error 404 shirt.''
   \<and> fst (get_recommendations_for_customer example_lib example_customer_rag ''C1''
            example_sessions example_transactions example_wishlists (Some ''male'')) = Inr []
   \<and> fst (snd (get_recommendations_for_customer example_lib example_customer_rag ''C1''
            example_sessions example_transactions example_wishlists (Some ''male''))) = []"
proof -
  define b where "b = build_customer_profile example_lib (products_df example_customer_rag) ''C1''
          example_sessions example_transactions example_wishlists"
  have p: "fst b = ''Searched for: Error 404 shirt.''"
    unfolding b_def using profile_C1 by (simp add: example_customer_rag_def)
  have c: "str_contains ''Error'' ''Searched for: Error 404 shirt.''"
    by code_simp
  have e: "b = (fst b, fst (snd b), fst (snd (snd b)), snd (snd (snd b)))" by simp
  have "get_recommendations_for_customer example_lib example_customer_rag ''C1''
            example_sessions example_transactions example_wishlists (Some ''male'')
        = (Inr [], [], fst (snd b), fst (snd (snd b)), snd (snd (snd b)))"
    using recommendations_short_circuit[OF e[unfolded b_def]] p c unfolding b_def by simp
  then show ?thesis using p c unfolding b_def by simp
qed

section \<open>Ranking\<close>

lemma get_or_fun_upd:
  "get_or (d(k' \<mapsto> v)) k dflt = (if k = k' then v else get_or d k dflt)"
  by (simp add: get_or_def)

lemma get_fun_upd:
  "get (d(k' \<mapsto> v)) k = (if k = k' then v else get d k)"
  by (simp add: get_def get_or_def)

lemma format_product_dictionary_eq:
  "format_product_dictionary lib p =
     (case format_comma lib (get_or p ''Price'' (PInt 0)) of
        Inl e \<Rightarrow> Inl e
      | Inr shown \<Rightarrow>
          Inr (p(''id'' \<mapsto> get p ''Product_ID'',
                 ''name'' \<mapsto> get_or p ''Product_Name'' (PStr ''N/A''),
                 ''price'' \<mapsto> PStr (''IDR '' @ shown),
                 ''raw_price'' \<mapsto> get_or p ''Price'' (PInt 0),
                 ''image_url'' \<mapsto> build_url lib (get p ''Product_ID''),
                 ''reviews'' \<mapsto> get_or p ''Number_of_Reviews'' (PInt 0),
                 ''category'' \<mapsto> get_or p ''Category'' (PStr ''N/A''),
                 ''material'' \<mapsto> get_or p ''Material'' (PStr ''N/A''),
                 ''size'' \<mapsto> get_or p ''Size'' (PStr []),
                 ''description'' \<mapsto> get_or p ''Description'' (PStr ''No description available.''),
                 ''gender'' \<mapsto> get_or p ''Gender_Orientation'' (PStr ''N/A''))))"
  unfolding format_product_dictionary_def Let_def
  by (simp add: get_or_fun_upd get_fun_upd cong: sum.case_cong)


lemma format_product_dictionary_Inr:
  assumes "format_product_dictionary lib p = Inr r"
  obtains shown where
    "r = p(''id'' \<mapsto> get p ''Product_ID'',
           ''name'' \<mapsto> get_or p ''Product_Name'' (PStr ''N/A''),
           ''price'' \<mapsto> PStr (''IDR '' @ shown),
           ''raw_price'' \<mapsto> get_or p ''Price'' (PInt 0),
           ''image_url'' \<mapsto> build_url lib (get p ''Product_ID''),
           ''reviews'' \<mapsto> get_or p ''Number_of_Reviews'' (PInt 0),
           ''category'' \<mapsto> get_or p ''Category'' (PStr ''N/A''),
           ''material'' \<mapsto> get_or p ''Material'' (PStr ''N/A''),
           ''size'' \<mapsto> get_or p ''Size'' (PStr []),
           ''description'' \<mapsto> get_or p ''Description'' (PStr ''No description available.''),
           ''gender'' \<mapsto> get_or p ''Gender_Orientation'' (PStr ''N/A''))"
proof (cases "format_comma lib (get_or p ''Price'' (PInt 0))")
  case (Inl e)
  then show ?thesis using assms by (simp add: format_product_dictionary_eq)
next
  case (Inr shown)
  then show ?thesis using assms that[of shown] by (simp add: format_product_dictionary_eq)
qed

lemma format_product_dictionary_keeps:
  assumes "format_product_dictionary lib p = Inr r"
  shows "get r ''Gender_Orientation'' = get p ''Gender_Orientation''"
proof -
  from assms obtain shown where
    "r = p(''id'' \<mapsto> get p ''Product_ID'',
           ''name'' \<mapsto> get_or p ''Product_Name'' (PStr ''N/A''),
           ''price'' \<mapsto> PStr (''IDR '' @ shown),
           ''raw_price'' \<mapsto> get_or p ''Price'' (PInt 0),
           ''image_url'' \<mapsto> build_url lib (get p ''Product_ID''),
           ''reviews'' \<mapsto> get_or p ''Number_of_Reviews'' (PInt 0),
           ''category'' \<mapsto> get_or p ''Category'' (PStr ''N/A''),
           ''material'' \<mapsto> get_or p ''Material'' (PStr ''N/A''),
           ''size'' \<mapsto> get_or p ''Size'' (PStr []),
           ''description'' \<mapsto> get_or p ''Description'' (PStr ''No description available.''),
           ''gender'' \<mapsto> get_or p ''Gender_Orientation'' (PStr ''N/A''))"
    by (rule format_product_dictionary_Inr)
  then show ?thesis by (simp add: get_fun_upd)
qed

lemma format_product_dictionary_dom:
  assumes "format_product_dictionary lib p = Inr r"
  shows "dom r = dom p \<union> formatted_keys"
proof -
  from assms obtain shown where
    "r = p(''id'' \<mapsto> get p ''Product_ID'',
           ''name'' \<mapsto> get_or p ''Product_Name'' (PStr ''N/A''),
           ''price'' \<mapsto> PStr (''IDR '' @ shown),
           ''raw_price'' \<mapsto> get_or p ''Price'' (PInt 0),
           ''image_url'' \<mapsto> build_url lib (get p ''Product_ID''),
           ''reviews'' \<mapsto> get_or p ''Number_of_Reviews'' (PInt 0),
           ''category'' \<mapsto> get_or p ''Category'' (PStr ''N/A''),
           ''material'' \<mapsto> get_or p ''Material'' (PStr ''N/A''),
           ''size'' \<mapsto> get_or p ''Size'' (PStr []),
           ''description'' \<mapsto> get_or p ''Description'' (PStr ''No description available.''),
           ''gender'' \<mapsto> get_or p ''Gender_Orientation'' (PStr ''N/A''))"
    by (rule format_product_dictionary_Inr)
  then have "dom r = insert ''gender'' (insert ''description'' (insert ''size'' (insert ''material''
      (insert ''category'' (insert ''reviews'' (insert ''image_url'' (insert ''raw_price''
      (insert ''price'' (insert ''name'' (insert ''id'' (dom p)))))))))))"
    by (simp only: dom_fun_upd option.distinct if_False)
  then show ?thesis
    by (simp only: formatted_keys_def Un_insert_right Un_empty_right insert_commute)
qed


lemma map_exc_Inr_set:
  "map_exc f xs = Inr ys \<Longrightarrow> y \<in> set ys \<Longrightarrow> \<exists>x\<in>set xs. f x = Inr y"
proof (induction xs arbitrary: ys)
  case Nil
  then show ?case by simp
next
  case (Cons x xs)
  then show ?case by (auto split: sum.splits)
qed

lemma sorted_reverse_set:
  "set (sorted_reverse keyed) = snd ` set keyed"
  by (simp add: sorted_reverse_def)

lemma take_sorted_reverse_zip_subset:
  assumes "p \<in> set (take n (sorted_reverse (zip ks ps)))"
  shows "p \<in> set ps"
proof -
  from assms have "p \<in> set (sorted_reverse (zip ks ps))" by (rule in_set_takeD)
  then have "p \<in> snd ` set (zip ks ps)" by (simp only: sorted_reverse_set)
  then obtain kp where kp: "p = snd kp" "kp \<in> set (zip ks ps)" by (rule imageE)
  then have "(fst kp, p) \<in> set (zip ks ps)" by simp
  then show ?thesis by (rule set_zip_rightD)
qed

lemma take_sorted_reverse_map_subset:
  assumes "p \<in> set (take n (sorted_reverse (map (\<lambda>p. (f p, p)) ps)))"
  shows "p \<in> set ps"
proof -
  from assms have "p \<in> set (sorted_reverse (map (\<lambda>p. (f p, p)) ps))" by (rule in_set_takeD)
  then have "p \<in> snd ` set (map (\<lambda>p. (f p, p)) ps)" by (simp only: sorted_reverse_set)
  then show ?thesis by auto
qed

lemma normalize_gender_male: "normalize_gender (PStr ''male'') = PStr ''Men''"
  by (simp add: lower_def lower_char_def)

lemma filter_by_gender_male:
  "p \<in> set (filter_by_gender products_list (Some ''male'')) \<longleftrightarrow>
     p \<in> set products_list \<and> normalize_gender (get p ''Gender_Orientation'') = PStr ''Men''"
  using normalize_gender_male
  by (simp add: filter_by_gender_def Let_def del: normalize_gender.simps)

lemma show_trending_products_source:
  assumes "show_trending_products lib products_list gender = Inr results" and "r \<in> set results"
  shows "\<exists>p\<in>set (filter_by_gender products_list gender). format_product_dictionary lib p = Inr r"
proof (cases "map_exc calculate_trending_score (filter_by_gender products_list gender)")
  case (Inl e)
  then show ?thesis using assms(1) by (simp add: show_trending_products_def Let_def)
next
  case (Inr scores)
  then have r: "map_exc (format_product_dictionary lib)
          (take 5 (sorted_reverse (zip scores (filter_by_gender products_list gender)))) = Inr results"
    using assms(1) by (simp add: show_trending_products_def Let_def)
  from map_exc_Inr_set[OF r assms(2)] obtain p where
    p: "p \<in> set (take 5 (sorted_reverse (zip scores (filter_by_gender products_list gender))))"
       "format_product_dictionary lib p = Inr r" by blast
  from p(1) have "p \<in> set (filter_by_gender products_list gender)"
    by (rule take_sorted_reverse_zip_subset)
  with p(2) show ?thesis by blast
qed

text \<open>
  Claim C8.  Every record that \<open>show_trending_products\<close> returns for the hint
  ``male'' is the formatted version of a product of the list whose gender field
  normalizes to ``Men''; the record carries that gender field itself; and it is
  the formatted version of no product whose gender field is missing or
  normalizes to anything else.
\<close>

theorem trending_male_hint_only_men:
  assumes "show_trending_products lib products_list (Some ''male'') = Inr results"
      and "r \<in> set results"
  shows "(\<exists>p\<in>set products_list. format_product_dictionary lib p = Inr r
            \<and> normalize_gender (get p ''Gender_Orientation'') = PStr ''Men'')
         \<and> normalize_gender (get r ''Gender_Orientation'') = PStr ''Men''
         \<and> (\<forall>p. format_product_dictionary lib p = Inr r
                 \<longrightarrow> normalize_gender (get p ''Gender_Orientation'') = PStr ''Men'')"
proof -
  from show_trending_products_source[OF assms] obtain p where
    p: "p \<in> set (filter_by_gender products_list (Some ''male''))"
       "format_product_dictionary lib p = Inr r" by blast
  from p(1) have m: "p \<in> set products_list"
       "normalize_gender (get p ''Gender_Orientation'') = PStr ''Men''"
    by (simp_all only: filter_by_gender_male)
  have k: "normalize_gender (get r ''Gender_Orientation'') = PStr ''Men''"
    using format_product_dictionary_keeps[OF p(2)] m(2) by simp
  have a: "normalize_gender (get q ''Gender_Orientation'') = PStr ''Men''"
    if "format_product_dictionary lib q = Inr r" for q
    using format_product_dictionary_keeps[OF that] k by simp
  have e: "\<exists>p\<in>set products_list. format_product_dictionary lib p = Inr r
            \<and> normalize_gender (get p ''Gender_Orientation'') = PStr ''Men''"
    using p(2) m by (intro bexI[of _ p] conjI)
  show ?thesis using e k a by (intro conjI allI impI)
qed

lemma format_product_dictionary_int_price:
  "p ''Price'' = Some (PInt i) \<Longrightarrow>
     format_product_dictionary lib p = Inr (projr (format_product_dictionary lib p))"
  by (simp add: format_product_dictionary_eq get_or_def)

lemma example_genders:
  "normalize_gender (get example_shirt ''Gender_Orientation'') = PStr ''Men''"
  "normalize_gender (get example_dress ''Gender_Orientation'') = PStr ''Women''"
  "normalize_gender (get example_scarf ''Gender_Orientation'') = PNone"
  "normalize_gender (get example_jeans ''Gender_Orientation'') = PStr ''Men''"
  by (simp_all add: example_shirt_def example_dress_def example_scarf_def example_jeans_def
        get_def get_or_def lower_def lower_char_def)

lemma example_filter_male:
  "filter_by_gender example_catalog (Some ''male'') = [example_shirt, example_jeans]"
  using normalize_gender_male example_genders
  by (simp add: filter_by_gender_def Let_def example_catalog_def del: normalize_gender.simps)

lemma example_scores:
  "calculate_trending_score example_shirt = Inr 4.7"
  "calculate_trending_score example_jeans = Inr 7.4"
  by (simp_all add: calculate_trending_score_def example_shirt_def example_jeans_def get_or_def)

lemma example_trending_male:
  "show_trending_products example_lib example_catalog (Some ''male'')
     = Inr [projr (format_product_dictionary example_lib example_jeans),
            projr (format_product_dictionary example_lib example_shirt)]"
proof -
  define rj where "rj = projr (format_product_dictionary example_lib example_jeans)"
  define rs where "rs = projr (format_product_dictionary example_lib example_shirt)"
  have j: "format_product_dictionary example_lib example_jeans = Inr rj"
    unfolding rj_def
    by (rule format_product_dictionary_int_price[of _ 1350000]) (simp add: example_jeans_def)
  have s: "format_product_dictionary example_lib example_shirt = Inr rs"
    unfolding rs_def
    by (rule format_product_dictionary_int_price[of _ 250000]) (simp add: example_shirt_def)
  have sc: "map_exc calculate_trending_score [example_shirt, example_jeans] = Inr [4.7, 7.4]"
    by (simp add: example_scores)
  have o: "take 5 (sorted_reverse (zip [4.7::real, 7.4] [example_shirt, example_jeans]))
             = [example_jeans, example_shirt]"
    by (simp add: sorted_reverse_def)
  have f: "map_exc (format_product_dictionary example_lib) [example_jeans, example_shirt]
             = Inr [rj, rs]"
    by (simp add: j s)
  have "show_trending_products example_lib example_catalog (Some ''male'') = Inr [rj, rs]"
    by (simp only: show_trending_products_def Let_def example_filter_male sc sum.case o f)
  then show ?thesis unfolding rj_def rs_def .
qed

theorem trending_male_hint_only_men_witness:
  "show_trending_products example_lib example_catalog (Some ''male'')
     = Inr [projr (format_product_dictionary example_lib example_jeans),
            projr (format_product_dictionary example_lib example_shirt)]
   \<and> normalize_gender (get (projr (format_product_dictionary example_lib example_jeans))
         ''Gender_Orientation'') = PStr ''Men''
   \<and> normalize_gender (get (projr (format_product_dictionary example_lib example_shirt))
         ''Gender_Orientation'') = PStr ''Men''
   \<and> normalize_gender (get example_dress ''Gender_Orientation'') = PStr ''Women''
   \<and> normalize_gender (get example_scarf ''Gender_Orientation'') = PNone"
  using example_trending_male example_genders(2,3)
    trending_male_hint_only_men[OF example_trending_male,
      of "projr (format_product_dictionary example_lib example_jeans)"]
    trending_male_hint_only_men[OF example_trending_male,
      of "projr (format_product_dictionary example_lib example_shirt)"]
  by simp

section \<open>The customer profile\<close>




lemma getcol_Inr_iff: "getcol df c = Inr cells \<longleftrightarrow> map_of df c = Some cells"
  by (simp add: getcol_def split: option.splits)



















section \<open>Key sets of the records\<close>

lemma display_record_dom:
  assumes "display_record lib idx item = Inr r"
  shows "dom r = display_keys"
proof (cases "format_comma lib (get_or item ''Price'' (PInt 0))")
  case (Inl e)
  then show ?thesis using assms by (simp add: display_record_def Let_def)
next
  case (Inr shown)
  then have "r = [''id'' \<mapsto> get_or item ''Product_ID'' (PStr (''rec_'' @ int_str idx)),
                  ''name'' \<mapsto> get_or item ''Product_Name'' (PStr ''N/A''),
                  ''price'' \<mapsto> PStr (''IDR '' @ shown),
                  ''raw_price'' \<mapsto> get_or item ''Price'' (PInt 0),
                  ''brand'' \<mapsto> get_or item ''Brand'' (PStr ''N/A''),
                  ''color'' \<mapsto> get_or item ''Color'' (PStr ''N/A''),
                  ''gender'' \<mapsto> get_or item ''Gender_Orientation'' (PStr ''N/A''),
                  ''image_url'' \<mapsto> build_url lib (get_or item ''Product_ID'' (PStr (''rec_'' @ int_str idx))),
                  ''rating'' \<mapsto> get_or item ''Rating'' (PInt 0),
                  ''reviews'' \<mapsto> get_or item ''Number_of_Reviews'' (PInt 0),
                  ''category'' \<mapsto> get_or item ''Category'' (PStr ''N/A''),
                  ''description'' \<mapsto> get_or item ''Description'' (PStr ''No description available.''),
                  ''material'' \<mapsto> get_or item ''Material'' (PStr ''N/A''),
                  ''size'' \<mapsto> get_or item ''Size'' (PStr [])]"
    using assms by (simp add: display_record_def Let_def)
  then have "dom r = insert ''size'' (insert ''material'' (insert ''description''
      (insert ''category'' (insert ''reviews'' (insert ''rating'' (insert ''image_url''
      (insert ''gender'' (insert ''color'' (insert ''brand'' (insert ''raw_price''
      (insert ''price'' (insert ''name'' (insert ''id'' {})))))))))))))"
    by (simp only: dom_fun_upd option.distinct if_False dom_empty)
  then show ?thesis
    by (simp only: display_keys_def insert_commute)
qed

lemma hydrate_dom:
  "hydrate lib details indices = Inr results \<Longrightarrow> r \<in> set results \<Longrightarrow> dom r = display_keys"
proof (induction indices arbitrary: results)
  case Nil
  then show ?case by simp
next
  case (Cons idx rest)
  show ?case
  proof (cases "idx = - 1")
    case True
    then show ?thesis using Cons by simp
  next
    case False
    then obtain item shown others where
      h: "display_record lib idx item = Inr shown" "hydrate lib details rest = Inr others"
         "results = shown # others"
      using Cons.prems(1) by (auto split: sum.splits)
    from Cons.prems(2) h(3) have "r = shown \<or> r \<in> set others" by simp
    then show ?thesis
    proof
      assume "r = shown"
      then show ?thesis using display_record_dom[OF h(1)] by simp
    next
      assume "r \<in> set others"
      then show ?thesis using Cons.IH[OF h(2)] by simp
    qed
  qed
qed

lemma search_cases:
  "fst (search lib self query k gender) = Inr results \<Longrightarrow>
     results = [] \<or> (\<exists>indices. hydrate lib (product_details self) indices = Inr results)"
  by (auto simp: search_def Let_def split: option.splits sum.splits)

lemma recommendations_cases:
  assumes "fst (get_recommendations_for_customer lib self customer_id
                  sessions_df transactions_df wishlists_df gender) = Inr results"
  shows "results = [] \<or> (\<exists>indices. hydrate lib (product_details self) indices = Inr results)"
proof -
  obtain p s' t' w' where b: "build_customer_profile lib (products_df self) customer_id
      sessions_df transactions_df wishlists_df = (p, s', t', w')"
    using prod_cases4 by blast
  with assms show ?thesis
    by (auto simp: get_recommendations_for_customer_def Let_def split: option.splits sum.splits if_splits)
qed

lemma filter_by_gender_subset: "set (filter_by_gender products_list gender) \<subseteq> set products_list"
  by (simp add: filter_by_gender_def Let_def)

lemma show_top_5_discounted_products_source:
  assumes "show_top_5_discounted_products lib products_list gender = Inr results"
      and "r \<in> set results"
  shows "\<exists>p\<in>set (filter_by_gender products_list gender). format_product_dictionary lib p = Inr r"
proof -
  from assms(1) have r: "map_exc (format_product_dictionary lib)
      (take 5 (sorted_reverse (map (\<lambda>p. (get_discount_percentage lib p, p))
         (filter_by_gender products_list gender)))) = Inr results"
    by (simp add: show_top_5_discounted_products_def Let_def)
  from map_exc_Inr_set[OF r assms(2)] obtain p where
    p: "p \<in> set (take 5 (sorted_reverse (map (\<lambda>p. (get_discount_percentage lib p, p))
         (filter_by_gender products_list gender))))"
       "format_product_dictionary lib p = Inr r" by blast
  from p(1) have "p \<in> set (filter_by_gender products_list gender)"
    by (rule take_sorted_reverse_map_subset)
  with p(2) show ?thesis by blast
qed


text \<open>
  Claim C2, as the code has it.  The two retrievers build their records key by
  key: every record that \<open>search\<close> or \<open>get_recommendations_for_customer\<close>
  returns has exactly the fourteen keys of a display record.  The two ranking
  functions return copies of the catalog records to which
  \<open>format_product_dictionary\<close> has added keys: every record that
  \<open>show_trending_products\<close> or \<open>show_top_5_discounted_products\<close> returns has
  all the keys of a product of the list, and the eleven keys that
  \<open>format_product_dictionary\<close> assigns.
\<close>

theorem display_record_key_sets:
  "(fst (search lib self query k gender) = Inr found
      \<longrightarrow> (\<forall>r\<in>set found. dom r = display_keys))
   \<and> (fst (get_recommendations_for_customer lib cself customer_id
              sessions_df transactions_df wishlists_df hint) = Inr recommended
      \<longrightarrow> (\<forall>r\<in>set recommended. dom r = display_keys))
   \<and> (show_trending_products lib products_list g = Inr trending
      \<longrightarrow> (\<forall>r\<in>set trending. \<exists>p\<in>set products_list. dom p \<union> formatted_keys \<subseteq> dom r))
   \<and> (show_top_5_discounted_products lib products_list' g' = Inr discounted
      \<longrightarrow> (\<forall>r\<in>set discounted. \<exists>p\<in>set products_list'. dom p \<union> formatted_keys \<subseteq> dom r))"
proof -
  have a: "dom r = display_keys"
    if "fst (search lib self query k gender) = Inr found" "r \<in> set found" for r
    using search_cases[OF that(1)] that(2) hydrate_dom by fastforce
  have b: "dom r = display_keys"
    if "fst (get_recommendations_for_customer lib cself customer_id
              sessions_df transactions_df wishlists_df hint) = Inr recommended"
       "r \<in> set recommended" for r
    using recommendations_cases[OF that(1)] that(2) hydrate_dom by fastforce
  have c: "\<exists>p\<in>set products_list. dom p \<union> formatted_keys \<subseteq> dom r"
    if "show_trending_products lib products_list g = Inr trending" "r \<in> set trending" for r
  proof -
    from show_trending_products_source[OF that] obtain p where
      p: "p \<in> set (filter_by_gender products_list g)" "format_product_dictionary lib p = Inr r"
      by blast
    have "p \<in> set products_list" using p(1) filter_by_gender_subset by blast
    moreover have "dom p \<union> formatted_keys \<subseteq> dom r"
      using format_product_dictionary_dom[OF p(2)] by simp
    ultimately show ?thesis by blast
  qed
  have d: "\<exists>p\<in>set products_list'. dom p \<union> formatted_keys \<subseteq> dom r"
    if "show_top_5_discounted_products lib products_list' g' = Inr discounted"
       "r \<in> set discounted" for r
  proof -
    from show_top_5_discounted_products_source[OF that] obtain p where
      p: "p \<in> set (filter_by_gender products_list' g')" "format_product_dictionary lib p = Inr r"
      by blast
    have "p \<in> set products_list'" using p(1) filter_by_gender_subset by blast
    moreover have "dom p \<union> formatted_keys \<subseteq> dom r"
      using format_product_dictionary_dom[OF p(2)] by simp
    ultimately show ?thesis by blast
  qed
  show ?thesis using a b c d by (intro conjI impI ballI)
qed

lemma recommendations_success:
  assumes "index self = Some index_search" and "client self = Some create_embedding"
      and "fst (build_customer_profile lib (products_df self) customer_id
                  sessions_df transactions_df wishlists_df) = profile"
      and "\<not> str_contains ''No activity data'' profile" and "\<not> str_contains ''Error'' profile"
      and "create_embedding (with_gender_hint lib gender profile) = Inr query_vector"
      and "index_search query_vector 5 = Inr indices"
  shows "fst (get_recommendations_for_customer lib self customer_id
                sessions_df transactions_df wishlists_df gender)
           = hydrate lib (product_details self) indices"
proof -
  obtain p s' t' w' where b: "build_customer_profile lib (products_df self) customer_id
      sessions_df transactions_df wishlists_df = (p, s', t', w')"
    using prod_cases4 by blast
  with assms show ?thesis
    by (simp add: get_recommendations_for_customer_def Let_def)
qed

lemma example_hydrate:
  "hydrate example_lib example_details [- 1, 5, 2]
     = Inr [projr (display_record example_lib 5 example_dress),
            projr (display_record example_lib 2 example_scarf)]"
proof -
  have r5: "display_record example_lib 5 (example_details ! 5)
              = Inr (projr (display_record example_lib 5 example_dress))"
    using display_record_int_price[of example_dress _ example_lib 5]
    by (simp add: example_details_def example_dress_def)
  have r2: "display_record example_lib 2 (example_details ! 2)
              = Inr (projr (display_record example_lib 2 example_scarf))"
    using display_record_int_price[of example_scarf _ example_lib 2]
    by (simp add: example_details_def example_scarf_def)
  have len: "5 < length example_details" by (simp add: example_details_def)
  show ?thesis using r5 r2 len by (simp only: hydrate_5_2) simp
qed

lemma example_search:
  "fst (search example_lib example_rag ''shirt'' 3 (Some ''female''))
     = Inr [projr (display_record example_lib 5 example_dress),
            projr (display_record example_lib 2 example_scarf)]"
  using example_hydrate by (simp add: search_def example_rag_def Let_def)

lemma example_recommendations:
  "fst (get_recommendations_for_customer example_lib example_customer_rag ''C2''
          example_sessions example_transactions example_wishlists None)
     = Inr [projr (display_record example_lib 5 example_dress),
            projr (display_record example_lib 2 example_scarf)]"
proof -
  have "fst (get_recommendations_for_customer example_lib example_customer_rag ''C2''
          example_sessions example_transactions example_wishlists None)
     = hydrate example_lib (product_details example_customer_rag) [- 1, 5, 2]"
    apply (rule recommendations_success[where
          profile = "''Searched for: blue jeans. Interested in: Linen Shirt. Purchased: Linen Shirt, Summer Dress.''"
          and index_search = "\<lambda>query_vector k. Inr [- 1, 5, 2]"
          and create_embedding = "\<lambda>text. Inr (length text)"])
    using profile_C2 profile_C2_usable
    by (simp_all add: example_customer_rag_def)
  then show ?thesis using example_hydrate by (simp add: example_customer_rag_def)
qed

lemma example_ranking_scarf:
  "show_trending_products example_lib [example_scarf] None
     = Inr [projr (format_product_dictionary example_lib example_scarf)]"
  "show_top_5_discounted_products example_lib [example_scarf] None
     = Inr [projr (format_product_dictionary example_lib example_scarf)]"
proof -
  define rs where "rs = projr (format_product_dictionary example_lib example_scarf)"
  have s: "format_product_dictionary example_lib example_scarf = Inr rs"
    unfolding rs_def
    by (rule format_product_dictionary_int_price[of _ 90000]) (simp add: example_scarf_def)
  have f: "filter_by_gender [example_scarf] None = [example_scarf]"
    by (simp add: filter_by_gender_def)
  have c: "calculate_trending_score example_scarf = Inr 17"
    by (simp add: calculate_trending_score_def example_scarf_def get_or_def)
  have "show_trending_products example_lib [example_scarf] None = Inr [rs]"
    by (simp add: show_trending_products_def Let_def f c sorted_reverse_def s)
  then show "show_trending_products example_lib [example_scarf] None
     = Inr [projr (format_product_dictionary example_lib example_scarf)]"
    unfolding rs_def .
  have "show_top_5_discounted_products example_lib [example_scarf] None = Inr [rs]"
    by (simp add: show_top_5_discounted_products_def Let_def f sorted_reverse_def s)
  then show "show_top_5_discounted_products example_lib [example_scarf] None
     = Inr [projr (format_product_dictionary example_lib example_scarf)]"
    unfolding rs_def .
qed


theorem display_record_key_sets_witness:
  "fst (search example_lib example_rag ''shirt'' 3 (Some ''female''))
     = Inr [projr (display_record example_lib 5 example_dress),
            projr (display_record example_lib 2 example_scarf)]
   \<and> dom (projr (display_record example_lib 5 example_dress)) = display_keys
   \<and> fst (get_recommendations_for_customer example_lib example_customer_rag ''C2''
          example_sessions example_transactions example_wishlists None)
     = Inr [projr (display_record example_lib 5 example_dress),
            projr (display_record example_lib 2 example_scarf)]
   \<and> dom (projr (display_record example_lib 2 example_scarf)) = display_keys
   \<and> show_trending_products example_lib example_catalog (Some ''male'')
     = Inr [projr (format_product_dictionary example_lib example_jeans),
            projr (format_product_dictionary example_lib example_shirt)]
   \<and> (\<exists>p\<in>set example_catalog.
         dom p \<union> formatted_keys
           \<subseteq> dom (projr (format_product_dictionary example_lib example_jeans)))
   \<and> show_top_5_discounted_products example_lib [example_scarf] None
     = Inr [projr (format_product_dictionary example_lib example_scarf)]
   \<and> (\<exists>p\<in>set [example_scarf].
         dom p \<union> formatted_keys
           \<subseteq> dom (projr (format_product_dictionary example_lib example_scarf)))"
  using example_search example_recommendations example_trending_male example_ranking_scarf(2)
    display_record_key_sets[where lib = example_lib and self = example_rag and query = "''shirt''"
      and k = 3 and gender = "Some ''female''"
      and found = "[projr (display_record example_lib 5 example_dress),
                    projr (display_record example_lib 2 example_scarf)]"
      and cself = example_customer_rag and customer_id = "''C2''"
      and sessions_df = example_sessions and transactions_df = example_transactions
      and wishlists_df = example_wishlists and hint = None
      and recommended = "[projr (display_record example_lib 5 example_dress),
                          projr (display_record example_lib 2 example_scarf)]"
      and products_list = example_catalog and g = "Some ''male''"
      and trending = "[projr (format_product_dictionary example_lib example_jeans),
                       projr (format_product_dictionary example_lib example_shirt)]"
      and products_list' = "[example_scarf]" and g' = None
      and discounted = "[projr (format_product_dictionary example_lib example_scarf)]"]
  by simp


text \<open>
  The trending record of a catalog record has the key \<open>Product_ID\<close> of the
  catalog record, which is not one of the fourteen keys.
\<close>

theorem trending_record_has_other_keys:
  "show_trending_products example_lib [example_scarf] None
     = Inr [projr (format_product_dictionary example_lib example_scarf)]
   \<and> ''Product_ID'' \<in> dom (projr (format_product_dictionary example_lib example_scarf))
   \<and> ''Product_ID'' \<notin> display_keys
   \<and> dom (projr (format_product_dictionary example_lib example_scarf)) \<noteq> display_keys"
proof -
  have s: "format_product_dictionary example_lib example_scarf
             = Inr (projr (format_product_dictionary example_lib example_scarf))"
    by (rule format_product_dictionary_int_price[of _ 90000]) (simp add: example_scarf_def)
  have d: "dom (projr (format_product_dictionary example_lib example_scarf))
             = dom example_scarf \<union> formatted_keys"
    using s by (rule format_product_dictionary_dom)
  have i: "''Product_ID'' \<in> dom example_scarf" by (simp add: example_scarf_def)
  have n: "''Product_ID'' \<notin> display_keys" by (simp add: display_keys_def)
  have "''Product_ID'' \<in> dom (projr (format_product_dictionary example_lib example_scarf))"
    unfolding d using i by simp
  then show ?thesis using example_ranking_scarf(1) n by metis
qed

end
